theory Spec2Isabelle
  imports Main
begin

section \<open>The 4:3 to 16:9 converter script (4.3.py)\<close>

text \<open>
  The script locates (or downloads) ffmpeg, builds one fixed command line and runs it.
  Everything it does is an effect on the operating system, so the embedding threads an
  explicit state through every function: the file system, and the trace of the external
  calls and console lines made so far. The operating system itself (which paths exist,
  what a child process answers, whether a download fails) is a parameter: a record of
  functions, one per library call of the source.

  Python strings are modelled as \<^typ>\<open>string\<close>, read as the UTF-8 bytes of the text. The
  string functions the script uses (\<open>splitext\<close>, \<open>strip\<close> with ASCII quote characters,
  concatenation) only look for ASCII characters, which never occur inside a multi-byte
  sequence, so they commute with the encoding.
\<close>

subsection \<open>Exceptions\<close>

text \<open>
  The exception classes the script distinguishes. \<open>except (subprocess.CalledProcessError,
  FileNotFoundError)\<close> catches exactly the first two; \<open>except Exception\<close> catches all
  of them. \<open>KeyboardInterrupt\<close> and \<open>SystemExit\<close> derive from \<open>BaseException\<close> only and
  are outside the model. An exception carries the text \<open>str(e)\<close> that an f-string prints.
\<close>

datatype exn_class =
    CalledProcessError
  | FileNotFoundError
  | PermissionError
  | OSError
  | URLError
  | BadZipFile
  | UnicodeDecodeError
  | UnicodeEncodeError
  | EOFError
  | OtherException

datatype exn = Exn exn_class string

fun exn_class_of :: "exn \<Rightarrow> exn_class" where
  "exn_class_of (Exn c m) = c"

fun exn_str :: "exn \<Rightarrow> string" where
  "exn_str (Exn c m) = m"

subsection \<open>The operating system as a parameter\<close>

datatype path_flavour = Posix | Nt

text \<open>
  One field per library call of the source. A call that can raise returns the exception or
  its value, together with the file system it leaves behind (a failed download may have
  written part of the archive). \<open>os.path.exists\<close> and \<open>os.path.isdir\<close> never raise: they
  answer \<open>False\<close> on an operating-system error.

  \<open>subprocess_spawn\<close> launches a child process with the given argument vector and waits for
  it: the launch raises, or the child exits with a return code and the bytes it wrote to
  standard error. \<open>locale_decode\<close> is the decoding of captured bytes that \<open>text=True\<close>
  asks for: the text, or a \<open>UnicodeDecodeError\<close>. \<open>urllib_urlretrieve\<close> includes the
  calls of the report hook \<open>download_progress\<close> (a floating-point percentage written to the
  console), which is not modelled further; an exception of the hook is an exception of the
  retrieval.

  \<open>stdout_write\<close> is what \<open>print(line)\<close> raises, if anything: a
  \<open>UnicodeEncodeError\<close> when the encoding of standard output has no code for a character
  of the line (the check mark and the ballot cross of the messages, on a console or a
  redirection with a legacy code page), an \<open>OSError\<close> when the stream is broken.
\<close>

record 'fs os_env =
  platform_system :: string
  path_flavour_of :: path_flavour
  script_dir :: string
  os_path_join :: "string list \<Rightarrow> string"
  os_path_basename :: "string \<Rightarrow> string"
  os_path_exists :: "'fs \<Rightarrow> string \<Rightarrow> bool"
  os_path_isdir :: "'fs \<Rightarrow> string \<Rightarrow> bool"
  subprocess_spawn :: "'fs \<Rightarrow> string list \<Rightarrow> (exn + int \<times> string) \<times> 'fs"
  urllib_urlretrieve :: "'fs \<Rightarrow> string \<Rightarrow> string \<Rightarrow> (exn + unit) \<times> 'fs"
  zipfile_extractall :: "'fs \<Rightarrow> string \<Rightarrow> string \<Rightarrow> (exn + unit) \<times> 'fs"
  os_listdir :: "'fs \<Rightarrow> string \<Rightarrow> (exn + string list) \<times> 'fs"
  shutil_rmtree :: "'fs \<Rightarrow> string \<Rightarrow> (exn + unit) \<times> 'fs"
  os_rename :: "'fs \<Rightarrow> string \<Rightarrow> string \<Rightarrow> (exn + unit) \<times> 'fs"
  os_remove :: "'fs \<Rightarrow> string \<Rightarrow> (exn + unit) \<times> 'fs"
  locale_decode :: "string \<Rightarrow> exn + string"
  stdout_write :: "string \<Rightarrow> exn option"
  stdin_readline :: "exn + string"

subsection \<open>State: the file system and the trace of effects\<close>

datatype event =
    Print string
  | Input string
  | Exists string
  | Isdir string
  | Spawn "string list"
  | Urlretrieve string string
  | Extractall string string
  | Listdir string
  | Rmtree string
  | Rename string string
  | Remove string

record 'fs state =
  fs :: 'fs
  trace :: "event list"

type_synonym ('fs, 'a) prog = "'fs state \<Rightarrow> (exn + 'a) \<times> 'fs state"

definition log :: "event \<Rightarrow> 'fs state \<Rightarrow> 'fs state" where
  "log e s = s\<lparr>trace := trace s @ [e]\<rparr>"

definition ret :: "'a \<Rightarrow> ('fs, 'a) prog" where
  "ret a s = (Inr a, s)"

definition raise :: "exn \<Rightarrow> ('fs, 'a) prog" where
  "raise e s = (Inl e, s)"

text \<open>Sequencing: an exception skips the rest, keeping the state reached.\<close>

definition andthen :: "('fs, 'a) prog \<Rightarrow> ('a \<Rightarrow> ('fs, 'b) prog) \<Rightarrow> ('fs, 'b) prog" where
  "andthen m f s = (case m s of (Inl e, s') \<Rightarrow> (Inl e, s') | (Inr a, s') \<Rightarrow> f a s')"

definition next_do :: "('fs, unit) prog \<Rightarrow> ('fs, 'b) prog \<Rightarrow> ('fs, 'b) prog" where
  "next_do m k = andthen m (\<lambda>_. k)"

text \<open>
  \<open>try: m except (classes) as e: h e\<close>. The handler runs in the state the exception left.
\<close>

definition try_except :: "('fs, 'a) prog \<Rightarrow> (exn_class \<Rightarrow> bool) \<Rightarrow> (exn \<Rightarrow> ('fs, 'a) prog) \<Rightarrow> ('fs, 'a) prog" where
  "try_except m caught h s =
     (case m s of
        (Inl e, s') \<Rightarrow> if caught (exn_class_of e) then h e s' else (Inl e, s')
      | (Inr a, s') \<Rightarrow> (Inr a, s'))"

text \<open>\<open>except Exception\<close>: every class of the model.\<close>

definition any_Exception :: "exn_class \<Rightarrow> bool" where
  "any_Exception c = True"

text \<open>An external call: logged, then answered by the environment.\<close>

definition external :: "event \<Rightarrow> ('fs \<Rightarrow> (exn + 'a) \<times> 'fs) \<Rightarrow> ('fs, 'a) prog" where
  "external ev call s = (case call (fs s) of (r, fs') \<Rightarrow> (r, (log ev s)\<lparr>fs := fs'\<rparr>))"

text \<open>
  \<open>print(line)\<close>: the line reaches the console, or the write raises and nothing is
  shown.
\<close>

definition print :: "'fs os_env \<Rightarrow> string \<Rightarrow> ('fs, unit) prog" where
  "print env line s =
     (case stdout_write env line of
        None \<Rightarrow> (Inr (), log (Print line) s)
      | Some e \<Rightarrow> (Inl e, s))"

definition input :: "'fs os_env \<Rightarrow> string \<Rightarrow> ('fs, string) prog" where
  "input env prompt s = (stdin_readline env, log (Input prompt) s)"

definition path_exists :: "'fs os_env \<Rightarrow> string \<Rightarrow> ('fs, bool) prog" where
  "path_exists env p s = (Inr (os_path_exists env (fs s) p), log (Exists p) s)"

definition path_isdir :: "'fs os_env \<Rightarrow> string \<Rightarrow> ('fs, bool) prog" where
  "path_isdir env p s = (Inr (os_path_isdir env (fs s) p), log (Isdir p) s)"

text \<open>
  \<open>subprocess.run(argv, ...)\<close>. The child is started and waited for. With
  \<open>stderr=subprocess.PIPE, text=True\<close> (\<open>capture\<close>) the bytes of its standard error are
  then decoded, which may raise; with \<open>stderr=subprocess.DEVNULL\<close> nothing is captured.
  Last, with \<open>check=True\<close> a non-zero return code raises \<open>CalledProcessError\<close>; its
  message is never printed by the script.
\<close>

definition subprocess_run :: "'fs os_env \<Rightarrow> string list \<Rightarrow> bool \<Rightarrow> bool \<Rightarrow> ('fs, int \<times> string) prog" where
  "subprocess_run env argv check capture =
     andthen (external (Spawn argv) (\<lambda>f. subprocess_spawn env f argv))
       (\<lambda>(returncode, raw).
          andthen (if capture then (\<lambda>s. (locale_decode env raw, s)) else ret [])
            (\<lambda>stderr.
               if check \<and> returncode \<noteq> 0
               then raise (Exn CalledProcessError ''non-zero exit status'')
               else ret (returncode, stderr)))"

subsection \<open>String helpers of the Python library\<close>

text \<open>\<open>s.strip(chars)\<close>: drop leading, then trailing, characters that are in \<open>chars\<close>.\<close>

definition strip :: "string \<Rightarrow> string \<Rightarrow> string" where
  "strip chars s = rev (dropWhile (\<lambda>c. c \<in> set chars) (rev (dropWhile (\<lambda>c. c \<in> set chars) s)))"

text \<open>\<open>s.startswith(prefix)\<close>\<close>

definition startswith :: "string \<Rightarrow> string \<Rightarrow> bool" where
  "startswith s pre = (take (length pre) s = pre)"

text \<open>\<open>s.rfind(c)\<close> for a single character: the highest index of \<open>c\<close>, or \<open>-1\<close>.\<close>

fun rfind :: "string \<Rightarrow> char \<Rightarrow> int" where
  "rfind [] c = - 1"
| "rfind (x # xs) c =
     (let r = rfind xs c in if 0 \<le> r then r + 1 else if x = c then 0 else - 1)"

text \<open>
  \<open>genericpath._splitext(p, sep, altsep, extsep)\<close>, which \<open>os.path.splitext\<close> calls with
  \<open>('/', None, '.')\<close> on POSIX and \<open>('\\', '/', '.')\<close> on Windows:
  \<^verbatim>\<open>
    sepIndex = p.rfind(sep)
    if altsep:
        sepIndex = max(sepIndex, p.rfind(altsep))
    dotIndex = p.rfind(extsep)
    if dotIndex > sepIndex:
        filenameIndex = sepIndex + 1
        while filenameIndex < dotIndex:
            if p[filenameIndex:filenameIndex+1] != extsep:
                return p[:dotIndex], p[dotIndex:]
            filenameIndex += 1
    return p, p[:0]
  \<close>
  \<open>splitext_loop\<close> is the while loop: \<open>True\<close> when it reaches the \<open>return\<close> inside.
\<close>

function splitext_loop :: "string \<Rightarrow> char \<Rightarrow> nat \<Rightarrow> nat \<Rightarrow> bool" where
  "splitext_loop p extsep filenameIndex dotIndex =
     (if filenameIndex < dotIndex
      then (if p ! filenameIndex \<noteq> extsep then True
            else splitext_loop p extsep (Suc filenameIndex) dotIndex)
      else False)"
  by pat_completeness auto
termination
  by (relation "measure (\<lambda>(p, extsep, filenameIndex, dotIndex). dotIndex - filenameIndex)") auto

declare splitext_loop.simps [simp del]

definition generic_splitext :: "string \<Rightarrow> char \<Rightarrow> char option \<Rightarrow> char \<Rightarrow> string \<times> string" where
  "generic_splitext p sep altsep extsep =
     (let sepIndex = rfind p sep;
          sepIndex = (case altsep of None \<Rightarrow> sepIndex | Some a \<Rightarrow> max sepIndex (rfind p a));
          dotIndex = rfind p extsep
      in if dotIndex > sepIndex \<and> splitext_loop p extsep (nat (sepIndex + 1)) (nat dotIndex)
         then (take (nat dotIndex) p, drop (nat dotIndex) p)
         else (p, []))"

fun splitext :: "path_flavour \<Rightarrow> string \<Rightarrow> string \<times> string" where
  "splitext Posix p = generic_splitext p (CHR ''/'') None (CHR ''.'')"
| "splitext Nt p = generic_splitext p (CHR 0x5C) (Some (CHR ''/'')) (CHR ''.'')"

subsection \<open>Locating the tool: \<open>get_ffmpeg_path\<close>\<close>

text \<open>
  \<open>script_dir\<close> is \<open>os.path.dirname(os.path.abspath(__file__))\<close>. \<open>os.path.join\<close> is the
  environment's: the script only joins the script directory with fixed names and with a
  name that \<open>os.listdir\<close> returned.
\<close>

definition get_ffmpeg_path :: "'fs os_env \<Rightarrow> string" where
  "get_ffmpeg_path env =
     (let ffmpeg_dir = os_path_join env [script_dir env, ''ffmpeg'']
      in if platform_system env = ''Windows''
         then os_path_join env [ffmpeg_dir, ''bin'', ''ffmpeg.exe'']
         else os_path_join env [ffmpeg_dir, ''ffmpeg''])"

subsection \<open>Installing the tool: \<open>download_ffmpeg\<close>\<close>

definition banner :: "char \<Rightarrow> string" where
  "banner c = replicate 60 c"

definition newline :: string where
  "newline = [CHR 0x0A]"

text \<open>The check mark U+2713 and the ballot cross U+2717 of the messages, in UTF-8.\<close>

definition check_mark :: string where
  "check_mark = [CHR 0xE2, CHR 0x9C, CHR 0x93]"

definition ballot_x :: string where
  "ballot_x = [CHR 0xE2, CHR 0x9C, CHR 0x97]"

text \<open>
  The list comprehension
  \<open>[f for f in os.listdir(script_dir) if f.startswith('ffmpeg-') and
  os.path.isdir(os.path.join(script_dir, f))]\<close>, applied to the listing: \<open>and\<close>
  short-circuits, so \<open>isdir\<close> is asked only for the names with the prefix.
\<close>

fun extracted_folders :: "'fs os_env \<Rightarrow> string \<Rightarrow> string list \<Rightarrow> ('fs, string list) prog" where
  "extracted_folders env dir [] = ret []"
| "extracted_folders env dir (f # names) =
     (if startswith f ''ffmpeg-''
      then andthen (path_isdir env (os_path_join env [dir, f]))
             (\<lambda>d. andthen (extracted_folders env dir names)
                     (\<lambda>rest. ret (if d then f # rest else rest)))
      else extracted_folders env dir names)"

text \<open>The body of the \<open>if system == 'Windows':\<close> branch (lines 37 to 62).\<close>

definition download_ffmpeg_windows :: "'fs os_env \<Rightarrow> string \<Rightarrow> ('fs, bool) prog" where
  "download_ffmpeg_windows env ffmpeg_dir =
     (let url = ''https://www.gyan.dev/ffmpeg/builds/ffmpeg-release-essentials.zip'';
          zip_path = os_path_join env [script_dir env, ''ffmpeg.zip'']
      in
      next_do (print env ''Downloading FFmpeg (this may take a few minutes)...'')
     (next_do (external (Urlretrieve url zip_path) (\<lambda>f. urllib_urlretrieve env f url zip_path))
     (next_do (print env (newline @ ''Extracting FFmpeg...''))
     (next_do (external (Extractall zip_path (script_dir env))
                 (\<lambda>f. zipfile_extractall env f zip_path (script_dir env)))
     (andthen (external (Listdir (script_dir env)) (\<lambda>f. os_listdir env f (script_dir env)))
     (\<lambda>names. andthen (extracted_folders env (script_dir env) names)
     (\<lambda>folders.
     next_do
       (case folders of
          [] \<Rightarrow> ret ()
        | first # _ \<Rightarrow>
            (let extracted_path = os_path_join env [script_dir env, first]
             in andthen (path_exists env ffmpeg_dir)
                  (\<lambda>present.
                     next_do (if present
                              then external (Rmtree ffmpeg_dir) (\<lambda>f. shutil_rmtree env f ffmpeg_dir)
                              else ret ())
                       (external (Rename extracted_path ffmpeg_dir)
                          (\<lambda>f. os_rename env f extracted_path ffmpeg_dir)))))
     (next_do (external (Remove zip_path) (\<lambda>f. os_remove env f zip_path))
     (next_do (print env (check_mark @ '' FFmpeg downloaded and installed successfully!'' @ newline))
       (ret True))))))))))"

definition download_ffmpeg :: "'fs os_env \<Rightarrow> ('fs, bool) prog" where
  "download_ffmpeg env =
     next_do (print env (newline @ banner (CHR ''='')))
    (next_do (print env ''FFmpeg not found - downloading...'')
    (next_do (print env (banner (CHR ''='')))
    (let ffmpeg_dir = os_path_join env [script_dir env, ''ffmpeg'']
     in try_except
          (if platform_system env = ''Windows''
           then download_ffmpeg_windows env ffmpeg_dir
           else next_do (print env ''Auto-download only works on Windows.'')
               (next_do (print env ''Please install ffmpeg manually:'')
               (next_do (print env ''  Mac: brew install ffmpeg'')
               (next_do (print env ''  Linux: sudo apt install ffmpeg'')
                 (ret False)))))
          any_Exception
          (\<lambda>e. next_do (print env (newline @ ballot_x @ '' Error downloading FFmpeg: '' @ exn_str e))
               (next_do (print env (newline @ ''Please install ffmpeg manually:''))
               (next_do (print env ''  Download from: https://ffmpeg.org/download.html'')
                 (ret False)))))))"

subsection \<open>\<open>check_ffmpeg\<close>\<close>

definition version_query :: "string list" where
  "version_query = [''ffmpeg'', ''-version'']"

text \<open>
  Lines 96 to 107: the local copy, and the download when there is none. The existence of
  the local executable is tested again after a download that reported success.
\<close>

definition local_or_download :: "'fs os_env \<Rightarrow> ('fs, string option) prog" where
  "local_or_download env =
     (let local_ffmpeg = get_ffmpeg_path env
      in andthen (path_exists env local_ffmpeg)
           (\<lambda>present.
              if present then ret (Some local_ffmpeg)
              else andthen (download_ffmpeg env)
                     (\<lambda>ok.
                        if ok
                        then (let local_ffmpeg = get_ffmpeg_path env
                              in andthen (path_exists env local_ffmpeg)
                                   (\<lambda>present.
                                      if present then ret (Some local_ffmpeg)
                                      else ret None))
                        else ret None)))"

text \<open>
  The first \<open>try\<close> block (lines 87 to 94) either returns \<open>'ffmpeg'\<close> from the function
  or passes: its value is \<open>Some ''ffmpeg''\<close> for the return and \<open>None\<close> for falling
  through to line 96.
\<close>

definition check_ffmpeg :: "'fs os_env \<Rightarrow> ('fs, string option) prog" where
  "check_ffmpeg env =
     andthen
       (try_except
          (andthen (subprocess_run env version_query True False) (\<lambda>_. ret (Some ''ffmpeg'')))
          (\<lambda>c. c = CalledProcessError \<or> c = FileNotFoundError)
          (\<lambda>e. ret None))
       (\<lambda>returned.
          case returned of
            Some exe \<Rightarrow> ret (Some exe)
          | None \<Rightarrow> local_or_download env)"

subsection \<open>\<open>convert_video\<close>\<close>

text \<open>Lines 126 and 127: the output file name.\<close>

definition output_path :: "path_flavour \<Rightarrow> string \<Rightarrow> string" where
  "output_path flavour input_path =
     (case splitext flavour input_path of (filename, ext) \<Rightarrow> filename @ ''_16-9'' @ ext)"

text \<open>Lines 135 to 142: the argument vector.\<close>

definition ffmpeg_command :: "path_flavour \<Rightarrow> string \<Rightarrow> string \<Rightarrow> string list" where
  "ffmpeg_command flavour ffmpeg_exe input_path =
     [ffmpeg_exe, ''-i'', input_path, ''-vf'', ''scale=1920:1080,setsar=1'',
      ''-c:a'', ''copy'', ''-y'', output_path flavour input_path]"

text \<open>Lines 125 to 162, reached with a truthy \<open>ffmpeg_exe\<close>.\<close>

definition run_conversion :: "'fs os_env \<Rightarrow> string \<Rightarrow> string \<Rightarrow> ('fs, bool) prog" where
  "run_conversion env ffmpeg_exe input_path =
     (let out = output_path (path_flavour_of env) input_path;
          command = ffmpeg_command (path_flavour_of env) ffmpeg_exe input_path
      in
      next_do (print env (''Converting: '' @ os_path_basename env input_path))
     (next_do (print env (''Output will be: '' @ os_path_basename env out))
     (next_do (print env (newline @ ''Processing... (this may take a while)''))
     (try_except
        (andthen (subprocess_run env command False True)
           (\<lambda>(returncode, stderr).
              if returncode = 0
              then next_do (print env (newline @ check_mark @ '' Success! Converted video saved as:''))
                  (next_do (print env (''  '' @ out))
                    (ret True))
              else next_do (print env (newline @ ballot_x @ '' Conversion failed!''))
                  (next_do (print env ''Error details:'')
                  (next_do (print env stderr)
                    (ret False)))))
        any_Exception
        (\<lambda>e. next_do (print env (newline @ ballot_x @ '' Error during conversion: '' @ exn_str e))
               (ret False))))))"

text \<open>\<open>if not ffmpeg_exe\<close>: \<open>None\<close> and the empty string are falsy.\<close>

definition convert_video :: "'fs os_env \<Rightarrow> string \<Rightarrow> ('fs, bool) prog" where
  "convert_video env input_path =
     andthen (path_exists env input_path)
       (\<lambda>present.
          if \<not> present
          then next_do (print env (''Error: File not found: '' @ input_path)) (ret False)
          else andthen (check_ffmpeg env)
                 (\<lambda>ffmpeg_exe.
                    if ffmpeg_exe = None \<or> ffmpeg_exe = Some []
                    then next_do (print env (newline @ banner (CHR ''!'')))
                        (next_do (print env ''ERROR: Could not get ffmpeg!'')
                        (next_do (print env (banner (CHR ''!'')))
                          (ret False)))
                    else run_conversion env (the ffmpeg_exe) input_path))"

subsection \<open>\<open>main\<close>\<close>

text \<open>
  \<open>main\<close> takes \<open>sys.argv\<close> and ends in \<open>sys.exit(code)\<close>: its value is the exit code.
  An exception that reaches it is not caught anywhere: the interpreter prints a traceback
  and the process dies.
\<close>

definition double_quote :: string where
  "double_quote = [CHR 0x22]"

definition single_quote :: string where
  "single_quote = [CHR 0x27]"

definition main :: "'fs os_env \<Rightarrow> string list \<Rightarrow> ('fs, int) prog" where
  "main env argv =
     next_do (print env (banner (CHR ''='')))
    (next_do (print env ''4:3 to 16:9 Video Converter'')
    (next_do (print env (banner (CHR ''='')))
    (next_do (print env [])
    (if length argv < 2
     then next_do (print env ''Usage: Drag and drop a video file onto this script'')
         (next_do (print env ''Or run: python script.py <video_file>'')
         (andthen (input env (newline @ ''Press Enter to exit...''))
           (\<lambda>_. ret 1)))
     else (let input_path = argv ! 1;
               input_path = strip single_quote (strip double_quote input_path)
           in next_do (print env (''Received file: '' @ input_path))
             (next_do (print env [])
             (andthen (convert_video env input_path)
               (\<lambda>success.
                  next_do (print env [])
                 (andthen (input env ''Press Enter to exit...'')
                   (\<lambda>_. ret (if success then 0 else 1)))))))))))"

subsection \<open>Notions used in the statements\<close>

text \<open>
  The characters \<open>os.path.splitext\<close> takes as directory separators: \<open>sep\<close>, and
  \<open>altsep\<close> where the platform has one.
\<close>

fun separators :: "path_flavour \<Rightarrow> string" where
  "separators Posix = [CHR ''/'']"
| "separators Nt = [CHR 0x5C, CHR ''/'']"

text \<open>
  The three outcomes of the version query of line 88 with \<open>check=True\<close>, as the
  \<open>try\<close> block of lines 87 to 94 sorts them: the child exited with status 0; the
  exception is one of the two caught classes or the exit status is not 0 (which
  \<open>check=True\<close> turns into \<open>CalledProcessError\<close>); the launch raised any other
  exception, which no handler catches.
\<close>

definition query_succeeds :: "exn + int \<times> string \<Rightarrow> bool" where
  "query_succeeds r = (case r of Inl e \<Rightarrow> False | Inr (returncode, stderr) \<Rightarrow> returncode = 0)"

definition query_falls_through :: "exn + int \<times> string \<Rightarrow> bool" where
  "query_falls_through r =
     (case r of
        Inl e \<Rightarrow> exn_class_of e = CalledProcessError \<or> exn_class_of e = FileNotFoundError
      | Inr (returncode, stderr) \<Rightarrow> returncode \<noteq> 0)"

definition query_propagates :: "exn + int \<times> string \<Rightarrow> bool" where
  "query_propagates r =
     (case r of
        Inl e \<Rightarrow> exn_class_of e \<noteq> CalledProcessError \<and> exn_class_of e \<noteq> FileNotFoundError
      | Inr (returncode, stderr) \<Rightarrow> False)"

text \<open>Child processes in a trace, and programs that start none.\<close>

fun is_spawn :: "event \<Rightarrow> bool" where
  "is_spawn (Spawn argv) = True"
| "is_spawn _ = False"

definition no_spawn :: "('fs, 'a) prog \<Rightarrow> bool" where
  "no_spawn m = (\<forall>s. \<exists>evs. trace (snd (m s)) = trace s @ evs \<and> \<not> list_ex is_spawn evs)"

text \<open>A path that neither begins nor ends with a quote character.\<close>

definition unquoted :: "string \<Rightarrow> bool" where
  "unquoted p = (p = [] \<or> hd p \<noteq> CHR 0x22 \<and> hd p \<noteq> CHR 0x27 \<and> last p \<noteq> CHR 0x22 \<and> last p \<noteq> CHR 0x27)"

text \<open>A standard output that accepts every line: \<open>print\<close> never raises.\<close>

definition stdout_ok :: "'fs os_env \<Rightarrow> bool" where
  "stdout_ok env = (\<forall>line. stdout_write env line = None)"

subsection \<open>A concrete operating system for the examples\<close>

text \<open>
  \<open>posixpath.join\<close> and \<open>posixpath.basename\<close> of the Python library, and a small file
  system: the list of the paths that exist, each with whether it is a directory. Every
  child process and file operation succeeds unless the example says otherwise; the
  argument \<open>answer\<close> is what a child process does, \<open>listing\<close> what \<open>os.listdir\<close>
  returns. The archive of the examples extracts nothing. Captured bytes decode to
  themselves and standard output accepts every line.
\<close>

fun posix_join_step :: "string \<Rightarrow> string \<Rightarrow> string" where
  "posix_join_step path b =
     (if startswith b ''/'' then b
      else if path = [] \<or> last path = CHR ''/'' then path @ b
      else path @ ''/'' @ b)"

fun posix_join :: "string list \<Rightarrow> string" where
  "posix_join [] = []"
| "posix_join (a # p) = foldl posix_join_step a p"

definition posix_basename :: "string \<Rightarrow> string" where
  "posix_basename p = drop (nat (rfind p (CHR ''/'') + 1)) p"

type_synonym demo_fs = "(string \<times> bool) list"

definition demo_os :: "string \<Rightarrow> (string list \<Rightarrow> exn + int \<times> string) \<Rightarrow> string list \<Rightarrow> demo_fs os_env" where
  "demo_os system answer listing =
     \<lparr>platform_system = system,
      path_flavour_of = Posix,
      script_dir = ''/app'',
      os_path_join = posix_join,
      os_path_basename = posix_basename,
      os_path_exists = (\<lambda>f p. p \<in> set (map fst f)),
      os_path_isdir = (\<lambda>f p. (p, True) \<in> set f),
      subprocess_spawn = (\<lambda>f argv. (answer argv, f)),
      urllib_urlretrieve = (\<lambda>f url dst. (Inr (), (dst, False) # f)),
      zipfile_extractall = (\<lambda>f zip_path dir. (Inr (), f)),
      os_listdir = (\<lambda>f dir. (Inr listing, f)),
      shutil_rmtree = (\<lambda>f p. (Inr (), filter (\<lambda>e. fst e \<noteq> p) f)),
      os_rename = (\<lambda>f a b. (Inr (), map (\<lambda>e. if fst e = a then (b, snd e) else e) f)),
      os_remove = (\<lambda>f p. (Inr (), filter (\<lambda>e. fst e \<noteq> p) f)),
      locale_decode = Inr,
      stdout_write = (\<lambda>line. None),
      stdin_readline = Inr []\<rparr>"

definition demo_start :: "demo_fs state" where
  "demo_start = \<lparr>fs = [(''/videos/clip.mp4'', False)], trace = []\<rparr>"

text \<open>
  The same on Windows: \<open>ntpath.join\<close> for plain names appended to a directory path,
  \<open>ntpath.basename\<close> for a path with a drive letter or none, and the script in the
  directory \<open>app\<close> of drive \<open>C:\<close>.
\<close>

definition backslash :: string where
  "backslash = [CHR 0x5C]"

fun nt_join_step :: "string \<Rightarrow> string \<Rightarrow> string" where
  "nt_join_step path b =
     (if path = [] \<or> last path = CHR 0x5C \<or> last path = CHR ''/'' \<or> last path = CHR '':''
      then path @ b
      else path @ backslash @ b)"

fun nt_join :: "string list \<Rightarrow> string" where
  "nt_join [] = []"
| "nt_join (a # p) = foldl nt_join_step a p"

definition nt_basename :: "string \<Rightarrow> string" where
  "nt_basename p =
     (let q = (if 2 \<le> length p \<and> p ! 1 = CHR '':'' then drop 2 p else p)
      in drop (nat (max (rfind q (CHR 0x5C)) (rfind q (CHR ''/'')) + 1)) q)"

definition windows_dir :: string where
  "windows_dir = ''C:'' @ backslash @ ''app''"

definition windows_zip :: string where
  "windows_zip = windows_dir @ backslash @ ''ffmpeg.zip''"

definition windows_local :: string where
  "windows_local = windows_dir @ backslash @ ''ffmpeg'' @ backslash @ ''bin'' @ backslash @ ''ffmpeg.exe''"

definition windows_clip :: string where
  "windows_clip = ''C:'' @ backslash @ ''videos'' @ backslash @ ''clip.mp4''"

definition demo_windows :: "(string list \<Rightarrow> exn + int \<times> string) \<Rightarrow> string list \<Rightarrow> demo_fs os_env" where
  "demo_windows answer listing =
     (demo_os ''Windows'' answer listing)
       \<lparr>path_flavour_of := Nt,
        script_dir := windows_dir,
        os_path_join := nt_join,
        os_path_basename := nt_basename\<rparr>"

definition windows_start :: "demo_fs state" where
  "windows_start = \<lparr>fs = [(windows_clip, False)], trace = []\<rparr>"

text \<open>What the child processes of the examples do, and the exceptions they meet.\<close>

definition installed_start :: "demo_fs state" where
  "installed_start =
     \<lparr>fs = [(''/videos/clip.mp4'', False), (''/app/ffmpeg/ffmpeg'', False)], trace = []\<rparr>"

definition child_exits :: "int \<Rightarrow> string \<Rightarrow> string list \<Rightarrow> exn + int \<times> string" where
  "child_exits rc err argv = (if argv = version_query then Inr (0, []) else Inr (rc, err))"

definition query_raises :: "exn \<Rightarrow> string list \<Rightarrow> exn + int \<times> string" where
  "query_raises e argv = (if argv = version_query then Inl e else Inr (0, []))"

definition not_found :: exn where
  "not_found = Exn FileNotFoundError ''[Errno 2] No such file or directory: ffmpeg''"

definition denied :: exn where
  "denied = Exn PermissionError ''[Errno 13] Permission denied: ffmpeg''"

definition stale_listing :: "string list" where
  "stale_listing = [''4.3.py'', ''ffmpeg.zip'', ''ffmpeg-notes.txt'']"

text \<open>
  An encoding that has the ASCII characters only: a standard output that raises
  \<open>UnicodeEncodeError\<close> on any other character, and a locale in which other bytes do
  not decode. \<open>strict_locale\<close> is a system whose conversion child exits with status 0
  after writing such a byte to standard error; \<open>plain_console\<close> one whose conversion
  child exits with status 1 and the text \<open>X\<close>, on such a standard output.
\<close>

definition is_ascii :: "string \<Rightarrow> bool" where
  "is_ascii line = list_all (\<lambda>c. \<not> digit7 c) line"

definition encode_error :: exn where
  "encode_error = Exn UnicodeEncodeError ''ascii codec cannot encode character''"


definition ascii_console :: "string \<Rightarrow> exn option" where
  "ascii_console line = (if is_ascii line then None else Some encode_error)"




definition plain_console :: "demo_fs os_env" where
  "plain_console = (demo_os ''Linux'' (child_exits 1 ''X'') [])\<lparr>stdout_write := ascii_console\<rparr>"

section \<open>Properties\<close>

subsection \<open>Sequencing and state\<close>

lemmas prog_defs = andthen_def next_do_def try_except_def ret_def raise_def print_def
  path_exists_def path_isdir_def external_def subprocess_run_def input_def any_Exception_def

lemma print_written:
  "stdout_write env line = None \<Longrightarrow> print env line s = (Inr (), log (Print line) s)"
  by (simp add: print_def)

lemma print_raises:
  "stdout_write env line = Some e \<Longrightarrow> print env line s = (Inl e, s)"
  by (simp add: print_def)

lemma print_ok [simp]:
  "stdout_ok env \<Longrightarrow> print env line s = (Inr (), log (Print line) s)"
  by (simp add: print_def stdout_ok_def)

lemma state_updates [simp]:
  "s\<lparr>trace := t, fs := f\<rparr> = \<lparr>fs = f, trace = t\<rparr>"
  "s\<lparr>fs := f, trace := t\<rparr> = \<lparr>fs = f, trace = t\<rparr>"
  by simp_all

lemma try_except_any_returns:
  assumes "\<And>e s1. \<exists>a s'. h e s1 = (Inr a, s')"
  shows "\<exists>a s'. try_except m any_Exception h s = (Inr a, s')"
proof -
  obtain r s1 where m: "m s = (r, s1)" by (cases "m s")
  show ?thesis
  proof (cases r)
    case (Inr a)
    with m show ?thesis by (simp add: try_except_def)
  next
    case (Inl e)
    with m assms [of e s1] show ?thesis
      by (simp add: try_except_def any_Exception_def)
  qed
qed

lemma demo_stdout_ok: "stdout_ok (demo_os system answer listing)"
  by (simp add: stdout_ok_def demo_os_def)

subsection \<open>\<open>rfind\<close> and \<open>splitext\<close>\<close>

lemma rfind_notin: "c \<notin> set xs \<Longrightarrow> rfind xs c = - 1"
  by (induction xs) (auto simp: Let_def)

lemma rfind_upper: "rfind xs c < int (length xs)"
  by (induction xs) (auto simp: Let_def)

lemma rfind_append_notin: "c \<notin> set ys \<Longrightarrow> rfind (xs @ ys) c = rfind xs c"
  by (induction xs) (auto simp: Let_def rfind_notin)

lemma rfind_snoc: "rfind (xs @ [c]) c = int (length xs)"
  by (induction xs) (auto simp: Let_def)

lemma rfind_after_last:
  assumes "c \<notin> set ys"
  shows "rfind (xs @ c # ys) c = int (length xs)"
proof -
  have "rfind ((xs @ [c]) @ ys) c = rfind (xs @ [c]) c"
    using assms by (rule rfind_append_notin)
  then show ?thesis by (simp add: rfind_snoc)
qed

lemma splitext_loop_iff:
  "splitext_loop p e i j = (\<exists>k. i \<le> k \<and> k < j \<and> p ! k \<noteq> e)"
proof (induction p e i j rule: splitext_loop.induct)
  case (1 p e i j)
  show ?case
  proof (cases "i < j")
    case False
    then show ?thesis by (subst splitext_loop.simps) auto
  next
    case True
    show ?thesis
    proof (cases "p ! i \<noteq> e")
      case True
      with \<open>i < j\<close> show ?thesis by (subst splitext_loop.simps) auto
    next
      case False
      then have eq: "p ! i = e" by simp
      have "splitext_loop p e i j = splitext_loop p e (Suc i) j"
        using \<open>i < j\<close> eq by (subst splitext_loop.simps) simp
      also have "\<dots> = (\<exists>k. Suc i \<le> k \<and> k < j \<and> p ! k \<noteq> e)"
        using "1.IH" \<open>i < j\<close> eq by simp
      also have "\<dots> = (\<exists>k. i \<le> k \<and> k < j \<and> p ! k \<noteq> e)"
        using eq by (metis Suc_leD Suc_leI le_neq_implies_less)
      finally show ?thesis .
    qed
  qed
qed

lemma rfind_sep_bound: "c \<notin> set rest \<Longrightarrow> rfind (dir @ rest) c \<le> int (length dir) - 1"
  using rfind_upper [of dir c] by (simp add: rfind_append_notin)

lemma rfind_sep_last:
  assumes "dir \<noteq> []" and "last dir = c" and "c \<notin> set rest"
  shows "rfind (dir @ rest) c = int (length dir) - 1"
proof -
  from assms(1,2) have "dir = butlast dir @ [c]"
    by (metis append_butlast_last_id)
  then have "rfind dir c = int (length (butlast dir))"
    by (metis rfind_snoc)
  moreover have "int (length (butlast dir)) = int (length dir) - 1"
    using assms(1) by (simp add: Suc_leI)
  ultimately show ?thesis
    using assms(3) by (simp add: rfind_append_notin)
qed

lemma generic_splitext_at_dot:
  assumes sep: "(case altsep of None \<Rightarrow> rfind (dir @ stem @ e # ext) sep
                 | Some a \<Rightarrow> max (rfind (dir @ stem @ e # ext) sep) (rfind (dir @ stem @ e # ext) a))
                = int (length dir) - 1"
      and dot: "e \<notin> set ext"
      and stem: "\<exists>c \<in> set stem. c \<noteq> e"
  shows "generic_splitext (dir @ stem @ e # ext) sep altsep e = (dir @ stem, e # ext)"
proof -
  let ?p = "dir @ stem @ e # ext"
  have dotIndex: "rfind ?p e = int (length dir + length stem)"
    using rfind_after_last [OF dot, of "dir @ stem"] by simp
  from stem obtain i where i: "i < length stem" "stem ! i \<noteq> e"
    by (metis in_set_conv_nth)
  then have "?p ! (length dir + i) \<noteq> e"
    by (simp add: nth_append)
  with i have loop: "splitext_loop ?p e (length dir) (length dir + length stem)"
    unfolding splitext_loop_iff by (intro exI [of _ "length dir + i"]) simp
  have "nat (int (length dir) - 1 + 1) = length dir"
    and "nat (int (length dir + length stem)) = length dir + length stem" by simp_all
  with sep dotIndex loop show ?thesis
    by (simp add: generic_splitext_def Let_def del: of_nat_add)
qed

text \<open>
  C1. Let the path be \<open>dir @ stem @ ''.'' @ ext\<close>, where \<open>dir\<close> is empty or ends with a
  separator (any depth, any dots in it), the base name \<open>stem @ ''.'' @ ext\<close> contains no
  separator, \<open>ext\<close> contains no dot, and \<open>stem\<close> has a character other than a dot (a
  base name made of leading dots and a name, such as \<open>.bashrc\<close>, has no extension for
  \<open>os.path.splitext\<close>). Then the output path is the same path with \<open>_16-9\<close> inserted
  immediately before the last dot. The result depends on nothing but the path: it is the
  same on both path flavours.
\<close>

theorem output_path_inserts_suffix:
  assumes dir: "dir = [] \<or> last dir \<in> set (separators flavour)"
      and base: "\<forall>c \<in> set (stem @ ext). c \<notin> set (separators flavour)"
      and ext: "CHR ''.'' \<notin> set ext"
      and stem: "\<exists>c \<in> set stem. c \<noteq> CHR ''.''"
  shows "output_path flavour (dir @ stem @ ''.'' @ ext) = dir @ stem @ ''_16-9'' @ ''.'' @ ext"
proof -
  let ?rest = "stem @ CHR ''.'' # ext"
  have split: "splitext flavour (dir @ stem @ CHR ''.'' # ext) = (dir @ stem, CHR ''.'' # ext)"
  proof (cases flavour)
    case Posix
    with base have no: "CHR ''/'' \<notin> set ?rest" by auto
    have "rfind (dir @ ?rest) (CHR ''/'') = int (length dir) - 1"
    proof (cases "dir = []")
      case True
      with no show ?thesis by (simp add: rfind_notin)
    next
      case False
      with dir Posix have "last dir = CHR ''/''" by simp
      with False no show ?thesis by (simp add: rfind_sep_last)
    qed
    then show ?thesis
      using Posix ext stem by (simp add: generic_splitext_at_dot)
  next
    case Nt
    with base have no1: "CHR 0x5C \<notin> set ?rest" and no2: "CHR ''/'' \<notin> set ?rest" by auto
    have "max (rfind (dir @ ?rest) (CHR 0x5C)) (rfind (dir @ ?rest) (CHR ''/'')) = int (length dir) - 1"
    proof (cases "dir = []")
      case True
      with no1 no2 show ?thesis by (simp add: rfind_notin)
    next
      case False
      with dir Nt have "last dir = CHR 0x5C \<or> last dir = CHR ''/''" by simp
      then show ?thesis
        using rfind_sep_last [OF False _ no1] rfind_sep_last [OF False _ no2]
          rfind_sep_bound [OF no1, of dir] rfind_sep_bound [OF no2, of dir]
        by (auto simp: max_def)
    qed
    then show ?thesis
      using Nt ext stem by (simp add: generic_splitext_at_dot)
  qed
  then show ?thesis
    by (simp add: output_path_def)
qed

theorem output_path_inserts_suffix_witness:
  "output_path Posix ''/home/a.b/v1.0/holiday.clip.mp4'' = ''/home/a.b/v1.0/holiday.clip_16-9.mp4''"
  using output_path_inserts_suffix [of "''/home/a.b/v1.0/''" Posix "''holiday.clip''" "''mp4''"]
  by simp

text \<open>A base name without an extension gets the suffix appended.\<close>

lemma output_path_dotfile: "output_path Posix ''/home/a.b/.bashrc'' = ''/home/a.b/.bashrc_16-9''"
  by (simp add: output_path_def generic_splitext_def Let_def splitext_loop.simps)

lemma output_path_clip: "output_path Posix ''/videos/clip.mp4'' = ''/videos/clip_16-9.mp4''"
  by (simp add: output_path_def generic_splitext_def Let_def splitext_loop.simps)

subsection \<open>Programs that start no child process\<close>

lemma no_spawn_ret: "no_spawn (ret a)"
  by (simp add: no_spawn_def ret_def)

lemma no_spawn_print: "no_spawn (print env line)"
  by (simp add: no_spawn_def print_def log_def split: option.split)

lemma no_spawn_path_exists: "no_spawn (path_exists env p)"
  by (simp add: no_spawn_def path_exists_def log_def)

lemma no_spawn_path_isdir: "no_spawn (path_isdir env p)"
  by (simp add: no_spawn_def path_isdir_def log_def)

lemma no_spawn_external: "\<not> is_spawn ev \<Longrightarrow> no_spawn (external ev call)"
  by (simp add: no_spawn_def external_def log_def split: prod.split)

lemma no_spawn_andthen:
  assumes "no_spawn m" and "\<And>a. no_spawn (f a)"
  shows "no_spawn (andthen m f)"
  unfolding no_spawn_def
proof
  fix s
  obtain r s1 where m: "m s = (r, s1)" by (cases "m s")
  from assms(1) m obtain evs where evs: "trace s1 = trace s @ evs" "\<not> list_ex is_spawn evs"
    unfolding no_spawn_def by (metis snd_conv)
  show "\<exists>evs. trace (snd (andthen m f s)) = trace s @ evs \<and> \<not> list_ex is_spawn evs"
  proof (cases r)
    case (Inl e)
    with m evs show ?thesis by (simp add: andthen_def)
  next
    case (Inr a)
    from assms(2) [of a] obtain evs' where
      "trace (snd (f a s1)) = trace s1 @ evs'" "\<not> list_ex is_spawn evs'"
      unfolding no_spawn_def by blast
    with m evs Inr show ?thesis by (simp add: andthen_def)
  qed
qed

lemma no_spawn_next_do: "no_spawn m \<Longrightarrow> no_spawn k \<Longrightarrow> no_spawn (next_do m k)"
  by (simp add: next_do_def no_spawn_andthen)

lemma no_spawn_try_except:
  assumes "no_spawn m" and "\<And>e. no_spawn (h e)"
  shows "no_spawn (try_except m caught h)"
  unfolding no_spawn_def
proof
  fix s
  obtain r s1 where m: "m s = (r, s1)" by (cases "m s")
  from assms(1) m obtain evs where evs: "trace s1 = trace s @ evs" "\<not> list_ex is_spawn evs"
    unfolding no_spawn_def by (metis snd_conv)
  show "\<exists>evs. trace (snd (try_except m caught h s)) = trace s @ evs \<and> \<not> list_ex is_spawn evs"
  proof (cases r)
    case (Inr a)
    with m evs show ?thesis by (simp add: try_except_def)
  next
    case (Inl e)
    from assms(2) [of e] obtain evs' where
      "trace (snd (h e s1)) = trace s1 @ evs'" "\<not> list_ex is_spawn evs'"
      unfolding no_spawn_def by blast
    with m evs Inl show ?thesis by (simp add: try_except_def)
  qed
qed

lemma no_spawn_if: "no_spawn a \<Longrightarrow> no_spawn b \<Longrightarrow> no_spawn (if c then a else b)"
  by simp

lemma no_spawn_extracted_folders: "no_spawn (extracted_folders env dir names)"
proof (induction names)
  case Nil
  show ?case by (simp add: no_spawn_ret)
next
  case (Cons f names)
  then show ?case
    by (simp add: no_spawn_andthen no_spawn_path_isdir no_spawn_ret)
qed

lemmas no_spawn_intros = no_spawn_ret no_spawn_print no_spawn_path_exists no_spawn_path_isdir
  no_spawn_external no_spawn_andthen no_spawn_next_do no_spawn_try_except no_spawn_if
  no_spawn_extracted_folders

lemma no_spawn_download_ffmpeg_windows: "no_spawn (download_ffmpeg_windows env ffmpeg_dir)"
  unfolding download_ffmpeg_windows_def Let_def
  by (intro no_spawn_intros; simp add: no_spawn_intros split: list.split)

lemma no_spawn_download_ffmpeg: "no_spawn (download_ffmpeg env)"
  unfolding download_ffmpeg_def Let_def
  by (intro no_spawn_intros no_spawn_download_ffmpeg_windows)

subsection \<open>\<open>download_ffmpeg\<close>\<close>

text \<open>
  The \<open>except Exception\<close> of line 71 catches whatever the download, the extraction, the
  listing, the rename or the removal raises. Its handler prints: \<open>download_ffmpeg\<close>
  returns whenever standard output accepts every line.
\<close>

lemma download_ffmpeg_returns:
  assumes "stdout_ok env"
  shows "\<exists>ok s'. download_ffmpeg env s = (Inr ok, s')"
proof -
  have "\<exists>a s'. try_except m any_Exception
          (\<lambda>e. next_do (print env (newline @ ballot_x @ '' Error downloading FFmpeg: '' @ exn_str e))
               (next_do (print env (newline @ ''Please install ffmpeg manually:''))
               (next_do (print env ''  Download from: https://ffmpeg.org/download.html'')
                 (ret False)))) s1 = (Inr a, s')" for m :: "('a, bool) prog" and s1
    using assms
    by (intro try_except_any_returns) (auto simp: next_do_def andthen_def ret_def)
  then show ?thesis
    using assms unfolding download_ffmpeg_def Let_def
    by (simp add: next_do_def andthen_def)
qed

lemma extracted_folders_result:
  "fst (extracted_folders env dir names s) =
     Inr (filter (\<lambda>f. startswith f ''ffmpeg-'' \<and>
                       os_path_isdir env (fs s) (os_path_join env [dir, f])) names) \<and>
   fs (snd (extracted_folders env dir names s)) = fs s"
proof (induction names arbitrary: s)
  case Nil
  show ?case by (simp add: ret_def)
next
  case (Cons f names)
  show ?case
  proof (cases "startswith f ''ffmpeg-''")
    case False
    with Cons [of s] show ?thesis by simp
  next
    case True
    let ?s = "log (Isdir (os_path_join env [dir, f])) s"
    obtain r s' where r: "extracted_folders env dir names ?s = (r, s')"
      by (cases "extracted_folders env dir names ?s")
    with Cons [of ?s] True show ?thesis
      by (simp add: andthen_def path_isdir_def ret_def log_def)
  qed
qed

lemma download_ffmpeg_no_folder:
  assumes "platform_system env = ''Windows''"
      and "urllib_urlretrieve env (fs s)
             ''https://www.gyan.dev/ffmpeg/builds/ffmpeg-release-essentials.zip''
             (os_path_join env [script_dir env, ''ffmpeg.zip'']) = (Inr (), fs1)"
      and "zipfile_extractall env fs1 (os_path_join env [script_dir env, ''ffmpeg.zip''])
             (script_dir env) = (Inr (), fs2)"
      and "os_listdir env fs2 (script_dir env) = (Inr names, fs3)"
      and "\<not> list_ex (\<lambda>f. startswith f ''ffmpeg-'' \<and>
                           os_path_isdir env fs3 (os_path_join env [script_dir env, f])) names"
      and "os_remove env fs3 (os_path_join env [script_dir env, ''ffmpeg.zip'']) = (Inr (), fs4)"
      and "stdout_ok env"
  shows "fst (download_ffmpeg env s) = Inr True \<and>
         fs (snd (download_ffmpeg env s)) = fs4 \<and>
         last (trace (snd (download_ffmpeg env s))) =
           Print (check_mark @ '' FFmpeg downloaded and installed successfully!'' @ newline)"
proof -
  have none: "filter (\<lambda>f. startswith f ''ffmpeg-'' \<and>
                os_path_isdir env fs3 (os_path_join env [script_dir env, f])) names = []"
    using assms(5) by (simp add: list_ex_iff filter_empty_conv)
  let ?s3 = "\<lparr>fs = fs3, trace = trace s @
       [Print (newline @ banner (CHR ''='')), Print ''FFmpeg not found - downloading...'',
        Print (banner (CHR ''='')), Print ''Downloading FFmpeg (this may take a few minutes)...'',
        Urlretrieve ''https://www.gyan.dev/ffmpeg/builds/ffmpeg-release-essentials.zip''
          (os_path_join env [script_dir env, ''ffmpeg.zip'']),
        Print (newline @ ''Extracting FFmpeg...''),
        Extractall (os_path_join env [script_dir env, ''ffmpeg.zip'']) (script_dir env),
        Listdir (script_dir env)]\<rparr>"
  obtain r s4 where r: "extracted_folders env (script_dir env) names ?s3 = (r, s4)"
    by (cases "extracted_folders env (script_dir env) names ?s3")
  with extracted_folders_result [of env "script_dir env" names ?s3] none
  have evs: "extracted_folders env (script_dir env) names ?s3 = (Inr [], s4)" and "fs s4 = fs3"
    by simp_all
  show ?thesis
    using assms(1-4,6,7) evs \<open>fs s4 = fs3\<close>
    by (simp add: download_ffmpeg_def download_ffmpeg_windows_def Let_def andthen_def next_do_def
        try_except_def ret_def external_def path_exists_def any_Exception_def log_def)
qed

text \<open>
  C8. The claim asks for a failure when no directory named \<open>ffmpeg-...\<close> is found after
  the extraction. The code does otherwise: on Windows, with a standard output that accepts
  every line, when the download, the extraction, the listing and the removal of the
  archive succeed and no listed name is a directory with the prefix, \<open>download_ffmpeg\<close>
  skips the rename, removes the archive, prints that ffmpeg was downloaded and installed
  successfully, and returns \<open>True\<close>. The file system is the one the removal of the
  archive left: nothing was installed.
\<close>

theorem download_ffmpeg_success_without_install:
  assumes "platform_system env = ''Windows''"
      and "urllib_urlretrieve env (fs s)
             ''https://www.gyan.dev/ffmpeg/builds/ffmpeg-release-essentials.zip''
             (os_path_join env [script_dir env, ''ffmpeg.zip'']) = (Inr (), fs1)"
      and "zipfile_extractall env fs1 (os_path_join env [script_dir env, ''ffmpeg.zip''])
             (script_dir env) = (Inr (), fs2)"
      and "os_listdir env fs2 (script_dir env) = (Inr names, fs3)"
      and "\<not> list_ex (\<lambda>f. startswith f ''ffmpeg-'' \<and>
                           os_path_isdir env fs3 (os_path_join env [script_dir env, f])) names"
      and "os_remove env fs3 (os_path_join env [script_dir env, ''ffmpeg.zip'']) = (Inr (), fs4)"
      and "stdout_ok env"
  shows "fst (download_ffmpeg env s) = Inr True \<and>
         fs (snd (download_ffmpeg env s)) = fs4 \<and>
         last (trace (snd (download_ffmpeg env s))) =
           Print (check_mark @ '' FFmpeg downloaded and installed successfully!'' @ newline)"
  using assms by (rule download_ffmpeg_no_folder)

lemma demo_download_hyps:
  fixes f :: demo_fs
  defines "env \<equiv> demo_windows (query_raises not_found) stale_listing"
  assumes f: "f = [(windows_clip, False)]"
  shows "platform_system env = ''Windows''"
    and "urllib_urlretrieve env f
           ''https://www.gyan.dev/ffmpeg/builds/ffmpeg-release-essentials.zip''
           (os_path_join env [script_dir env, ''ffmpeg.zip'']) = (Inr (), (windows_zip, False) # f)"
    and "zipfile_extractall env ((windows_zip, False) # f)
           (os_path_join env [script_dir env, ''ffmpeg.zip'']) (script_dir env)
           = (Inr (), (windows_zip, False) # f)"
    and "os_listdir env ((windows_zip, False) # f) (script_dir env)
           = (Inr stale_listing, (windows_zip, False) # f)"
    and "\<not> list_ex (\<lambda>n. startswith n ''ffmpeg-'' \<and>
             os_path_isdir env ((windows_zip, False) # f) (os_path_join env [script_dir env, n]))
           stale_listing"
    and "os_remove env ((windows_zip, False) # f)
           (os_path_join env [script_dir env, ''ffmpeg.zip'']) = (Inr (), f)"
    and "stdout_ok env"
  by (simp_all add: env_def demo_windows_def demo_os_def f startswith_def stale_listing_def
      windows_zip_def windows_dir_def windows_clip_def backslash_def stdout_ok_def)

theorem download_ffmpeg_success_without_install_witness:
  "fst (download_ffmpeg (demo_windows (query_raises not_found) stale_listing) windows_start)
     = Inr True \<and>
   fs (snd (download_ffmpeg (demo_windows (query_raises not_found) stale_listing) windows_start))
     = [(windows_clip, False)]"
proof -
  have f: "fs windows_start = [(windows_clip, False)]" by (simp add: windows_start_def)
  note h = demo_download_hyps [OF f]
  from download_ffmpeg_success_without_install
    [of "demo_windows (query_raises not_found) stale_listing" windows_start,
     OF h(1) h(2) h(3) h(4) h(5) h(6) h(7)]
  show ?thesis by (simp add: f)
qed

subsection \<open>The conversion run\<close>

text \<open>
  What \<open>run_conversion\<close> does once the child process has exited: with the captured
  bytes decoded, and with a decoding that raises. The \<open>except Exception\<close> of line 160
  catches whatever the launch, the decoding or a \<open>print\<close> inside the \<open>try\<close> raises;
  its handler prints, so \<open>run_conversion\<close> returns whenever standard output accepts
  every line.
\<close>

lemma run_conversion_child_ran:
  assumes "subprocess_spawn env (fs s) (ffmpeg_command (path_flavour_of env) exe p) = (Inr (rc, raw), fs')"
      and "locale_decode env raw = Inr err"
      and "stdout_ok env"
  shows "run_conversion env exe p s =
           (Inr (rc = 0),
            \<lparr>fs = fs',
             trace = trace s @
               [Print (''Converting: '' @ os_path_basename env p),
                Print (''Output will be: '' @ os_path_basename env (output_path (path_flavour_of env) p)),
                Print (newline @ ''Processing... (this may take a while)''),
                Spawn (ffmpeg_command (path_flavour_of env) exe p)] @
               (if rc = 0
                then [Print (newline @ check_mark @ '' Success! Converted video saved as:''),
                      Print (''  '' @ output_path (path_flavour_of env) p)]
                else [Print (newline @ ballot_x @ '' Conversion failed!''),
                      Print ''Error details:'',
                      Print err])\<rparr>)"
  using assms
  by (simp add: run_conversion_def Let_def andthen_def next_do_def try_except_def ret_def
      external_def subprocess_run_def log_def)


lemma run_conversion_returns:
  assumes "stdout_ok env"
  shows "\<exists>ok s'. run_conversion env exe p s = (Inr ok, s')"
proof -
  have "\<exists>a s'. try_except m any_Exception
          (\<lambda>e. next_do (print env (newline @ ballot_x @ '' Error during conversion: '' @ exn_str e))
               (ret False)) s1 = (Inr a, s')" for m :: "('a, bool) prog" and s1
    using assms
    by (intro try_except_any_returns) (auto simp: next_do_def andthen_def ret_def)
  then show ?thesis
    using assms unfolding run_conversion_def Let_def
    by (simp add: next_do_def andthen_def)
qed

lemma run_conversion_True_only_after_exit_0:
  assumes "subprocess_spawn env (fs s) (ffmpeg_command (path_flavour_of env) exe p) = (q, fs2)"
      and "fst (run_conversion env exe p s) = Inr True"
  shows "\<exists>raw err. q = Inr (0, raw) \<and> locale_decode env raw = Inr err"
proof (cases q)
  case (Inl e)
  with assms show ?thesis
    by (auto simp: run_conversion_def Let_def prog_defs log_def split: option.splits)
next
  case (Inr v)
  obtain rc raw where v: "v = (rc, raw)" by (cases v)
  show ?thesis
  proof (cases "locale_decode env raw")
    case (Inl e)
    with assms Inr v show ?thesis
      by (auto simp: run_conversion_def Let_def prog_defs log_def split: option.splits)
  next
    case decoded: (Inr err)
    have "rc = 0"
    proof (rule ccontr)
      assume "rc \<noteq> 0"
      with assms Inr v decoded show False
        by (auto simp: run_conversion_def Let_def prog_defs log_def split: option.splits)
    qed
    with Inr v decoded show ?thesis by simp
  qed
qed

lemma convert_video_with_tool:
  assumes "os_path_exists env (fs s) p"
      and "check_ffmpeg env (log (Exists p) s) = (Inr (Some exe), s1)"
      and "exe \<noteq> []"
  shows "convert_video env p s = run_conversion env exe p s1"
  using assms by (simp add: convert_video_def andthen_def path_exists_def)

subsection \<open>\<open>check_ffmpeg\<close>\<close>

lemma check_ffmpeg_query_ok:
  assumes "subprocess_spawn env (fs s) version_query = (Inr (0, err), fs1)"
  shows "check_ffmpeg env s =
           (Inr (Some ''ffmpeg''), \<lparr>fs = fs1, trace = trace s @ [Spawn version_query]\<rparr>)"
  using assms by (simp add: check_ffmpeg_def prog_defs log_def)

lemma check_ffmpeg_query_nonzero:
  assumes "subprocess_spawn env (fs s) version_query = (Inr (rc, err), fs1)" and "rc \<noteq> 0"
  shows "check_ffmpeg env s =
           local_or_download env \<lparr>fs = fs1, trace = trace s @ [Spawn version_query]\<rparr>"
  using assms by (simp add: check_ffmpeg_def prog_defs log_def)

lemma check_ffmpeg_query_caught:
  assumes "subprocess_spawn env (fs s) version_query = (Inl e, fs1)"
      and "exn_class_of e = CalledProcessError \<or> exn_class_of e = FileNotFoundError"
  shows "check_ffmpeg env s =
           local_or_download env \<lparr>fs = fs1, trace = trace s @ [Spawn version_query]\<rparr>"
  using assms by (auto simp add: check_ffmpeg_def prog_defs log_def)

lemma check_ffmpeg_query_uncaught:
  assumes "subprocess_spawn env (fs s) version_query = (Inl e, fs1)"
      and "exn_class_of e \<noteq> CalledProcessError" and "exn_class_of e \<noteq> FileNotFoundError"
  shows "check_ffmpeg env s = (Inl e, \<lparr>fs = fs1, trace = trace s @ [Spawn version_query]\<rparr>)"
  using assms by (simp add: check_ffmpeg_def prog_defs log_def)

lemma query_trichotomy:
  "query_succeeds r \<or> query_falls_through r \<or> query_propagates r"
  by (auto simp: query_succeeds_def query_falls_through_def query_propagates_def
      split: sum.split prod.split)

lemma check_ffmpeg_succeeds:
  assumes "query_succeeds (fst (subprocess_spawn env (fs s) version_query))"
  shows "check_ffmpeg env s =
           (Inr (Some ''ffmpeg''),
            \<lparr>fs = snd (subprocess_spawn env (fs s) version_query),
             trace = trace s @ [Spawn version_query]\<rparr>)"
proof -
  obtain r fs1 where sp: "subprocess_spawn env (fs s) version_query = (r, fs1)"
    by (cases "subprocess_spawn env (fs s) version_query")
  with assms obtain err where "r = Inr (0, err)"
    by (auto simp: query_succeeds_def split: sum.splits prod.splits)
  with sp show ?thesis by (simp add: check_ffmpeg_query_ok)
qed

lemma check_ffmpeg_falls_through:
  assumes "query_falls_through (fst (subprocess_spawn env (fs s) version_query))"
  shows "check_ffmpeg env s =
           local_or_download env
             \<lparr>fs = snd (subprocess_spawn env (fs s) version_query),
              trace = trace s @ [Spawn version_query]\<rparr>"
proof -
  obtain r fs1 where sp: "subprocess_spawn env (fs s) version_query = (r, fs1)"
    by (cases "subprocess_spawn env (fs s) version_query")
  show ?thesis
  proof (cases r)
    case (Inl e)
    with assms sp show ?thesis
      by (simp add: query_falls_through_def check_ffmpeg_query_caught)
  next
    case (Inr v)
    with assms sp show ?thesis
      by (cases v) (simp add: query_falls_through_def check_ffmpeg_query_nonzero)
  qed
qed

lemma check_ffmpeg_propagates:
  assumes "query_propagates (fst (subprocess_spawn env (fs s) version_query))"
  shows "\<exists>e. fst (subprocess_spawn env (fs s) version_query) = Inl e \<and>
             check_ffmpeg env s =
               (Inl e, \<lparr>fs = snd (subprocess_spawn env (fs s) version_query),
                        trace = trace s @ [Spawn version_query]\<rparr>)"
proof -
  obtain r fs1 where sp: "subprocess_spawn env (fs s) version_query = (r, fs1)"
    by (cases "subprocess_spawn env (fs s) version_query")
  with assms obtain e where "r = Inl e" "exn_class_of e \<noteq> CalledProcessError"
    "exn_class_of e \<noteq> FileNotFoundError"
    by (auto simp: query_propagates_def split: sum.splits prod.splits)
  with sp show ?thesis by (simp add: check_ffmpeg_query_uncaught)
qed

lemma local_or_download_present:
  assumes "os_path_exists env (fs s) (get_ffmpeg_path env)"
  shows "local_or_download env s =
           (Inr (Some (get_ffmpeg_path env)), log (Exists (get_ffmpeg_path env)) s)"
  using assms by (simp add: local_or_download_def Let_def andthen_def path_exists_def ret_def)

lemma local_or_download_result:
  assumes "local_or_download env s1 = (r, s2)"
  shows "(\<exists>evs. trace s2 = trace s1 @ evs \<and> \<not> list_ex is_spawn evs) \<and>
         (r = Inr None \<or>
          r = Inr (Some (get_ffmpeg_path env)) \<and>
          os_path_exists env (fs s2) (get_ffmpeg_path env) \<and>
          last (trace s2) = Exists (get_ffmpeg_path env) \<or>
          (\<exists>e. r = Inl e))"
proof -
  let ?local = "get_ffmpeg_path env"
  let ?s = "log (Exists ?local) s1"
  show ?thesis
  proof (cases "os_path_exists env (fs s1) ?local")
    case True
    with assms have "r = Inr (Some ?local)" "s2 = ?s"
      by (simp_all add: local_or_download_def Let_def andthen_def path_exists_def ret_def)
    with True show ?thesis by (simp add: log_def)
  next
    case False
    obtain d s3 where dl: "download_ffmpeg env ?s = (d, s3)"
      by (cases "download_ffmpeg env ?s")
    from no_spawn_download_ffmpeg [of env] dl obtain evs where
      evs: "trace s3 = trace ?s @ evs" "\<not> list_ex is_spawn evs"
      unfolding no_spawn_def by (metis snd_conv)
    show ?thesis
    proof (cases d)
      case (Inl e)
      with False dl assms have "r = Inl e" "s2 = s3"
        by (simp_all add: local_or_download_def Let_def andthen_def path_exists_def ret_def)
      with evs show ?thesis by (simp add: log_def)
    next
      case (Inr ok)
      show ?thesis
      proof (cases ok)
        case False
        with Inr \<open>\<not> os_path_exists env (fs s1) ?local\<close> dl assms have "r = Inr None" "s2 = s3"
          by (simp_all add: local_or_download_def Let_def andthen_def path_exists_def ret_def)
        with evs show ?thesis by (simp add: log_def)
      next
        case True
        with Inr \<open>\<not> os_path_exists env (fs s1) ?local\<close> dl assms
        have r: "r = (if os_path_exists env (fs s3) ?local then Inr (Some ?local) else Inr None)"
          and s2: "s2 = log (Exists ?local) s3"
          by (simp_all add: local_or_download_def Let_def andthen_def path_exists_def ret_def split: if_splits)
        with evs show ?thesis by (simp add: log_def)
      qed
    qed
  qed
qed

lemma local_or_download_returns:
  assumes "stdout_ok env"
  shows "\<exists>r s2. local_or_download env s1 = (Inr r, s2)"
proof -
  obtain ok s3 where "download_ffmpeg env (log (Exists (get_ffmpeg_path env)) s1) = (Inr ok, s3)"
    using download_ffmpeg_returns [OF assms] by blast
  then show ?thesis
    by (simp add: local_or_download_def Let_def andthen_def path_exists_def ret_def)
qed

lemma demo_local_path: "get_ffmpeg_path (demo_os ''Linux'' answer listing) = ''/app/ffmpeg/ffmpeg''"
  by (simp add: get_ffmpeg_path_def demo_os_def startswith_def)

lemma demo_local_path_windows:
  "get_ffmpeg_path (demo_windows answer listing) = windows_local"
  by (simp add: get_ffmpeg_path_def demo_windows_def demo_os_def windows_local_def
      windows_dir_def backslash_def)

text \<open>
  C5. When the version query \<open>ffmpeg -version\<close> exits with status 0, \<open>check_ffmpeg\<close>
  returns the bare name \<open>ffmpeg\<close>, and the only effect is that one child process: no
  existence test of the local path, no download, no other call.
\<close>

theorem check_ffmpeg_system_path:
  assumes "subprocess_spawn env (fs s) version_query = (Inr (0, err), fs')"
  shows "check_ffmpeg env s =
           (Inr (Some ''ffmpeg''), \<lparr>fs = fs', trace = trace s @ [Spawn version_query]\<rparr>)"
  using assms by (rule check_ffmpeg_query_ok)

theorem check_ffmpeg_system_path_witness:
  "check_ffmpeg (demo_os ''Linux'' (child_exits 0 []) []) demo_start =
     (Inr (Some ''ffmpeg''),
      \<lparr>fs = [(''/videos/clip.mp4'', False)], trace = [Spawn [''ffmpeg'', ''-version'']]\<rparr>)"
  using check_ffmpeg_system_path
    [of "demo_os ''Linux'' (child_exits 0 []) []" demo_start "[]" "[(''/videos/clip.mp4'', False)]"]
  by (simp add: demo_os_def demo_start_def child_exits_def version_query_def)

lemma demo_local_copy_run:
  assumes "fs s = fs installed_start"
  shows "check_ffmpeg (demo_os ''Linux'' (query_raises not_found) []) s =
     (Inr (Some ''/app/ffmpeg/ffmpeg''),
      \<lparr>fs = [(''/videos/clip.mp4'', False), (''/app/ffmpeg/ffmpeg'', False)],
       trace = trace s @ [Spawn version_query, Exists ''/app/ffmpeg/ffmpeg'']\<rparr>)"
proof -
  let ?env = "demo_os ''Linux'' (query_raises not_found) []"
  let ?s1 = "\<lparr>fs = fs installed_start, trace = trace s @ [Spawn version_query]\<rparr>"
  have "subprocess_spawn ?env (fs s) version_query = (Inl not_found, fs installed_start)"
    by (simp add: demo_os_def query_raises_def assms)
  then have "check_ffmpeg ?env s = local_or_download ?env ?s1"
    by (rule check_ffmpeg_query_caught) (simp add: not_found_def)
  moreover have "os_path_exists ?env (fs ?s1) (get_ffmpeg_path ?env)"
    unfolding demo_local_path by (simp add: demo_os_def installed_start_def)
  ultimately show ?thesis
    by (simp add: local_or_download_present demo_local_path log_def installed_start_def)
qed

text \<open>
  C6. The claim says every reference the locator produces has answered a version query.
  The code asks the version only of the bare name; the local copy is accepted on
  \<open>os.path.exists\<close> alone. In the run below the version query of \<open>ffmpeg\<close> raises
  \<open>FileNotFoundError\<close>, the local path exists, and \<open>check_ffmpeg\<close> returns the local
  path: the only child process it started is the failed query of the bare name, and
  \<open>convert_video\<close> then runs the conversion with the local path.
\<close>

theorem local_copy_used_without_version_query:
  "check_ffmpeg (demo_os ''Linux'' (query_raises not_found) []) installed_start =
     (Inr (Some ''/app/ffmpeg/ffmpeg''),
      \<lparr>fs = [(''/videos/clip.mp4'', False), (''/app/ffmpeg/ffmpeg'', False)],
       trace = [Spawn [''ffmpeg'', ''-version''], Exists ''/app/ffmpeg/ffmpeg'']\<rparr>) \<and>
   fst (subprocess_spawn (demo_os ''Linux'' (query_raises not_found) []) (fs installed_start)
          [''ffmpeg'', ''-version'']) = Inl not_found \<and>
   filter is_spawn
     (trace (snd (convert_video (demo_os ''Linux'' (query_raises not_found) [])
                    ''/videos/clip.mp4'' installed_start))) =
     [Spawn [''ffmpeg'', ''-version''],
      Spawn [''/app/ffmpeg/ffmpeg'', ''-i'', ''/videos/clip.mp4'', ''-vf'',
             ''scale=1920:1080,setsar=1'', ''-c:a'', ''copy'', ''-y'',
             ''/videos/clip_16-9.mp4'']]"
proof -
  let ?env = "demo_os ''Linux'' (query_raises not_found) []"
  let ?s1 = "\<lparr>fs = [(''/videos/clip.mp4'', False), (''/app/ffmpeg/ffmpeg'', False)],
              trace = [Exists ''/videos/clip.mp4'', Spawn version_query,
                       Exists ''/app/ffmpeg/ffmpeg'']\<rparr>"
  have locate: "check_ffmpeg ?env installed_start =
     (Inr (Some ''/app/ffmpeg/ffmpeg''),
      \<lparr>fs = [(''/videos/clip.mp4'', False), (''/app/ffmpeg/ffmpeg'', False)],
       trace = [Spawn [''ffmpeg'', ''-version''], Exists ''/app/ffmpeg/ffmpeg'']\<rparr>)"
    using demo_local_copy_run [of installed_start]
    by (simp add: version_query_def installed_start_def)
  have query: "fst (subprocess_spawn ?env (fs installed_start) [''ffmpeg'', ''-version''])
                 = Inl not_found"
    by (simp add: demo_os_def query_raises_def version_query_def)
  have there: "os_path_exists ?env (fs installed_start) ''/videos/clip.mp4''"
    by (simp add: demo_os_def installed_start_def)
  have tool: "check_ffmpeg ?env (log (Exists ''/videos/clip.mp4'') installed_start)
                = (Inr (Some ''/app/ffmpeg/ffmpeg''), ?s1)"
    using demo_local_copy_run [of "log (Exists ''/videos/clip.mp4'') installed_start"]
    by (simp add: log_def installed_start_def)
  have child: "subprocess_spawn ?env (fs ?s1)
      (ffmpeg_command (path_flavour_of ?env) ''/app/ffmpeg/ffmpeg'' ''/videos/clip.mp4'')
      = (Inr (0, []), fs ?s1)"
    by (simp add: demo_os_def query_raises_def ffmpeg_command_def version_query_def)
  have decoded: "locale_decode ?env [] = Inr []" by (simp add: demo_os_def)
  have flavour: "path_flavour_of ?env = Posix" by (simp add: demo_os_def)
  have "convert_video ?env ''/videos/clip.mp4'' installed_start =
          run_conversion ?env ''/app/ffmpeg/ffmpeg'' ''/videos/clip.mp4'' ?s1"
    using there tool by (rule convert_video_with_tool) simp
  with run_conversion_child_ran [OF child decoded demo_stdout_ok]
  have "filter is_spawn (trace (snd (convert_video ?env ''/videos/clip.mp4'' installed_start))) =
     [Spawn [''ffmpeg'', ''-version''],
      Spawn [''/app/ffmpeg/ffmpeg'', ''-i'', ''/videos/clip.mp4'', ''-vf'',
             ''scale=1920:1080,setsar=1'', ''-c:a'', ''copy'', ''-y'',
             ''/videos/clip_16-9.mp4'']]"
    by (simp add: flavour ffmpeg_command_def output_path_clip version_query_def)
  with locate query show ?thesis by simp
qed

text \<open>
  C6, amended. A reference that \<open>check_ffmpeg\<close> returns is either the bare name
  \<open>ffmpeg\<close>, returned right after its version query exited with status 0, or the local
  install path (found at once or after a download), returned right after
  \<open>os.path.exists\<close> answered \<open>True\<close> for it in the file system of the return; in the
  second case the version query of the bare name had failed, and it is the only child
  process \<open>check_ffmpeg\<close> started: the local copy is never asked for its version.
\<close>

theorem check_ffmpeg_reference_provenance:
  assumes "check_ffmpeg env s = (Inr (Some exe), s')"
  shows "exe = ''ffmpeg'' \<and>
           query_succeeds (fst (subprocess_spawn env (fs s) version_query)) \<and>
           trace s' = trace s @ [Spawn version_query]
         \<or>
         exe = get_ffmpeg_path env \<and>
           os_path_exists env (fs s') exe \<and>
           last (trace s') = Exists exe \<and>
           (\<exists>evs. trace s' = trace s @ Spawn version_query # evs \<and> \<not> list_ex is_spawn evs) \<and>
           query_falls_through (fst (subprocess_spawn env (fs s) version_query))"
proof -
  let ?q = "fst (subprocess_spawn env (fs s) version_query)"
  consider "query_succeeds ?q" | "query_falls_through ?q" | "query_propagates ?q"
    using query_trichotomy by blast
  then show ?thesis
  proof cases
    case 1
    with assms show ?thesis by (auto simp add: check_ffmpeg_succeeds)
  next
    case 2
    let ?s1 = "\<lparr>fs = snd (subprocess_spawn env (fs s) version_query),
               trace = trace s @ [Spawn version_query]\<rparr>"
    from 2 assms have "local_or_download env ?s1 = (Inr (Some exe), s')"
      by (simp add: check_ffmpeg_falls_through)
    from local_or_download_result [OF this] 2 show ?thesis by auto
  next
    case 3
    from check_ffmpeg_propagates [OF 3] assms show ?thesis by auto
  qed
qed

theorem check_ffmpeg_reference_provenance_witness:
  "os_path_exists (demo_os ''Linux'' (query_raises not_found) [])
     (fs (snd (check_ffmpeg (demo_os ''Linux'' (query_raises not_found) []) installed_start)))
     ''/app/ffmpeg/ffmpeg'' \<and>
   query_falls_through
     (fst (subprocess_spawn (demo_os ''Linux'' (query_raises not_found) []) (fs installed_start)
        version_query))"
proof -
  let ?env = "demo_os ''Linux'' (query_raises not_found) []"
  have run: "check_ffmpeg ?env installed_start =
     (Inr (Some ''/app/ffmpeg/ffmpeg''),
      \<lparr>fs = [(''/videos/clip.mp4'', False), (''/app/ffmpeg/ffmpeg'', False)],
       trace = [Spawn version_query, Exists ''/app/ffmpeg/ffmpeg'']\<rparr>)"
    using demo_local_copy_run [of installed_start] by (simp add: installed_start_def)
  have "''/app/ffmpeg/ffmpeg'' \<noteq> ''ffmpeg''" by simp
  with check_ffmpeg_reference_provenance [OF run] show ?thesis
    by (simp add: run demo_local_path)
qed

text \<open>
  C10. Whatever \<open>check_ffmpeg\<close> returns is \<open>None\<close>, or the bare name \<open>ffmpeg\<close> after
  a version query that exited with status 0, or the local install path, which exists in
  the file system of the moment of return. In particular, when the query failed, the
  local path was missing, \<open>download_ffmpeg\<close> returned \<open>True\<close> and the local path is
  still missing, the second existence test makes the result \<open>None\<close>. And
  \<open>check_ffmpeg\<close> does return whenever the launch of the version query raises nothing
  but the two caught classes and standard output accepts every line. (When the launch
  raises another exception, \<open>check_ffmpeg\<close> returns nothing: see C7.)
\<close>

theorem check_ffmpeg_three_results:
  "(\<forall>r s'. check_ffmpeg env s = (Inr r, s') \<longrightarrow>
      (r = None \<or>
       r = Some ''ffmpeg'' \<and> query_succeeds (fst (subprocess_spawn env (fs s) version_query)) \<or>
       r = Some (get_ffmpeg_path env) \<and> os_path_exists env (fs s') (get_ffmpeg_path env)) \<and>
      (\<forall>s3. query_falls_through (fst (subprocess_spawn env (fs s) version_query)) \<and>
            \<not> os_path_exists env (snd (subprocess_spawn env (fs s) version_query)) (get_ffmpeg_path env) \<and>
            download_ffmpeg env
              \<lparr>fs = snd (subprocess_spawn env (fs s) version_query),
               trace = trace s @ [Spawn version_query, Exists (get_ffmpeg_path env)]\<rparr> = (Inr True, s3) \<and>
            \<not> os_path_exists env (fs s3) (get_ffmpeg_path env)
            \<longrightarrow> r = None \<and> s' = log (Exists (get_ffmpeg_path env)) s3)) \<and>
   (\<not> query_propagates (fst (subprocess_spawn env (fs s) version_query)) \<and> stdout_ok env \<longrightarrow>
      (\<exists>r s'. check_ffmpeg env s = (Inr r, s')))"
proof -
  let ?q = "fst (subprocess_spawn env (fs s) version_query)"
  let ?local = "get_ffmpeg_path env"
  let ?s1 = "\<lparr>fs = snd (subprocess_spawn env (fs s) version_query),
               trace = trace s @ [Spawn version_query]\<rparr>"
  consider "query_succeeds ?q" "\<not> query_falls_through ?q" | "query_falls_through ?q"
    | "query_propagates ?q" "\<not> query_falls_through ?q"
    using query_trichotomy by blast
  then show ?thesis
  proof cases
    case 1
    then show ?thesis by (simp add: check_ffmpeg_succeeds)
  next
    case 3
    from check_ffmpeg_propagates [OF 3(1)] 3 show ?thesis by auto
  next
    case 2
    have run: "check_ffmpeg env s = local_or_download env ?s1"
      using 2 by (rule check_ffmpeg_falls_through)
    have returned: "\<exists>r s'. check_ffmpeg env s = (Inr r, s')" if "stdout_ok env"
      using local_or_download_returns [OF that] run by simp
    have kinds: "r = None \<or> r = Some ?local \<and> os_path_exists env (fs s') ?local"
      if "check_ffmpeg env s = (Inr r, s')" for r s'
      using local_or_download_result [of env ?s1 "Inr r" s'] that run by auto
    have dangling: "r = None \<and> s' = log (Exists ?local) s3"
      if "check_ffmpeg env s = (Inr r, s')"
        and "\<not> os_path_exists env (snd (subprocess_spawn env (fs s) version_query)) ?local"
        and "download_ffmpeg env
               \<lparr>fs = snd (subprocess_spawn env (fs s) version_query),
                trace = trace s @ [Spawn version_query, Exists ?local]\<rparr> = (Inr True, s3)"
        and "\<not> os_path_exists env (fs s3) ?local" for r s' s3
      using that run
      by (simp add: local_or_download_def Let_def andthen_def path_exists_def ret_def log_def)
    from returned kinds dangling show ?thesis by blast
  qed
qed

theorem check_ffmpeg_three_results_witness:
  "fst (check_ffmpeg (demo_windows (query_raises not_found) stale_listing) windows_start)
     = Inr None"
proof -
  let ?env = "demo_windows (query_raises not_found) stale_listing"
  let ?local = "get_ffmpeg_path ?env"
  have spawn: "subprocess_spawn ?env (fs windows_start) version_query = (Inl not_found, fs windows_start)"
    by (simp add: demo_windows_def demo_os_def query_raises_def)
  have q: "\<not> query_propagates (fst (subprocess_spawn ?env (fs windows_start) version_query))"
    and ft: "query_falls_through (fst (subprocess_spawn ?env (fs windows_start) version_query))"
    using spawn by (simp_all add: query_propagates_def query_falls_through_def not_found_def)
  let ?s2 = "\<lparr>fs = [(windows_clip, False)],
              trace = trace windows_start @ [Spawn version_query, Exists ?local]\<rparr>"
  have s2: "\<lparr>fs = snd (subprocess_spawn ?env (fs windows_start) version_query),
             trace = trace windows_start @ [Spawn version_query, Exists ?local]\<rparr> = ?s2"
    and fs1: "snd (subprocess_spawn ?env (fs windows_start) version_query) = [(windows_clip, False)]"
    using spawn by (simp_all add: windows_start_def)
  have f: "fs ?s2 = [(windows_clip, False)]"
    by simp
  note h = demo_download_hyps [OF f]
  from download_ffmpeg_no_folder [of ?env ?s2, OF h(1) h(2) h(3) h(4) h(5) h(6) h(7)]
  have dl: "download_ffmpeg ?env ?s2 = (Inr True, snd (download_ffmpeg ?env ?s2))"
    and after: "fs (snd (download_ffmpeg ?env ?s2)) = [(windows_clip, False)]"
    by (simp_all add: prod_eq_iff)
  have missing: "\<not> os_path_exists ?env [(windows_clip, False)] ?local"
    unfolding demo_local_path_windows
    by (simp add: demo_windows_def demo_os_def windows_local_def windows_clip_def
        windows_dir_def backslash_def)
  note three = check_ffmpeg_three_results [of ?env windows_start, unfolded s2 fs1]
  from three q h(7) obtain r s' where run: "check_ffmpeg ?env windows_start = (Inr r, s')"
    by blast
  with three have
    dangling: "\<forall>s3. query_falls_through (fst (subprocess_spawn ?env (fs windows_start) version_query)) \<and>
                 \<not> os_path_exists ?env [(windows_clip, False)] ?local \<and>
                 download_ffmpeg ?env ?s2 = (Inr True, s3) \<and>
                 \<not> os_path_exists ?env (fs s3) ?local
                 \<longrightarrow> r = None \<and> s' = log (Exists ?local) s3"
    by blast
  from dangling ft dl after missing have "r = None"
    by metis
  with run show ?thesis by simp
qed

subsection \<open>\<open>convert_video\<close>\<close>

text \<open>
  C2. When \<open>os.path.exists\<close> answers \<open>False\<close> for the input path, \<open>convert_video\<close>
  tests the existence and prints one line, nothing else: when the line is written it
  returns \<open>False\<close>, and when the write raises, that exception leaves it. Either way no
  child process is started, the local install path is not looked up, nothing is
  downloaded, and the file system is unchanged.
\<close>

theorem convert_video_missing_input:
  assumes "\<not> os_path_exists env (fs s) input_path"
  shows "(stdout_write env (''Error: File not found: '' @ input_path) = None \<longrightarrow>
            convert_video env input_path s =
              (Inr False,
               s\<lparr>trace := trace s @ [Exists input_path,
                                     Print (''Error: File not found: '' @ input_path)]\<rparr>)) \<and>
         (\<forall>e. stdout_write env (''Error: File not found: '' @ input_path) = Some e \<longrightarrow>
            convert_video env input_path s =
              (Inl e, s\<lparr>trace := trace s @ [Exists input_path]\<rparr>))"
  using assms by (simp add: convert_video_def prog_defs log_def)

theorem convert_video_missing_input_witness:
  "convert_video (demo_os ''Linux'' (child_exits 0 []) []) ''/videos/none.mp4'' demo_start =
     (Inr False,
      \<lparr>fs = [(''/videos/clip.mp4'', False)],
       trace = [Exists ''/videos/none.mp4'', Print ''Error: File not found: /videos/none.mp4'']\<rparr>)"
  using convert_video_missing_input
    [of "demo_os ''Linux'' (child_exits 0 []) []" demo_start "''/videos/none.mp4''"]
  by (simp add: demo_os_def demo_start_def)


lemma demo_child:
  "subprocess_spawn (demo_os ''Linux'' (child_exits rc err) []) f
      (ffmpeg_command Posix ''ffmpeg'' ''/videos/clip.mp4'') = (Inr (rc, err), f)"
  by (simp add: demo_os_def child_exits_def ffmpeg_command_def version_query_def)





text \<open>\<open>convert_video\<close> returns \<open>True\<close> only after a child process that exited with 0.\<close>

lemma convert_video_True_only_after_exit_0:
  assumes "fst (convert_video env p s) = Inr True"
  shows "os_path_exists env (fs s) p \<and>
         (\<exists>exe s1 raw err fs2.
            check_ffmpeg env (log (Exists p) s) = (Inr (Some exe), s1) \<and> exe \<noteq> [] \<and>
            subprocess_spawn env (fs s1) (ffmpeg_command (path_flavour_of env) exe p)
              = (Inr (0, raw), fs2) \<and>
            locale_decode env raw = Inr err)"
proof -
  have ex: "os_path_exists env (fs s) p"
    using assms by (auto simp: convert_video_def prog_defs split: if_splits option.splits)
  obtain r s1 where c: "check_ffmpeg env (log (Exists p) s) = (r, s1)"
    by (cases "check_ffmpeg env (log (Exists p) s)")
  from assms ex c obtain exe where exe: "r = Inr (Some exe)" "exe \<noteq> []"
    by (cases r; cases "projr r")
      (auto simp: convert_video_def prog_defs split: if_splits option.splits)
  with ex c have run: "convert_video env p s = run_conversion env exe p s1"
    by (simp add: convert_video_with_tool)
  obtain q fs2 where sp:
    "subprocess_spawn env (fs s1) (ffmpeg_command (path_flavour_of env) exe p) = (q, fs2)"
    by (cases "subprocess_spawn env (fs s1) (ffmpeg_command (path_flavour_of env) exe p)")
  from run_conversion_True_only_after_exit_0 [OF sp] assms run
  obtain raw err where "q = Inr (0, raw)" "locale_decode env raw = Inr err" by auto
  with ex c exe sp show ?thesis by auto
qed

text \<open>
  On a standard output that accepts every line, a child that exits with another status
  makes \<open>convert_video\<close> return \<open>False\<close>, the captured text being the last line it
  prints.
\<close>

lemma convert_video_failure_relayed_when_printed:
  assumes "os_path_exists env (fs s) p"
      and "check_ffmpeg env (log (Exists p) s) = (Inr (Some exe), s1)"
      and "exe \<noteq> []"
      and "subprocess_spawn env (fs s1) (ffmpeg_command (path_flavour_of env) exe p) = (Inr (rc, raw), fs2)"
      and "locale_decode env raw = Inr err"
      and "rc \<noteq> 0"
      and "stdout_ok env"
  shows "convert_video env p s =
           (Inr False,
            \<lparr>fs = fs2,
             trace = trace s1 @
               [Print (''Converting: '' @ os_path_basename env p),
                Print (''Output will be: '' @
                       os_path_basename env (output_path (path_flavour_of env) p)),
                Print (newline @ ''Processing... (this may take a while)''),
                Spawn (ffmpeg_command (path_flavour_of env) exe p),
                Print (newline @ ballot_x @ '' Conversion failed!''),
                Print ''Error details:'',
                Print err]\<rparr>)"
  using convert_video_with_tool [OF assms(1-3)] run_conversion_child_ran [OF assms(4,5,7)] assms(6)
  by simp

lemma plain_console_tool:
  "check_ffmpeg plain_console (log (Exists ''/videos/clip.mp4'') demo_start) =
     (Inr (Some ''ffmpeg''),
      \<lparr>fs = [(''/videos/clip.mp4'', False)],
       trace = [Exists ''/videos/clip.mp4'', Spawn version_query]\<rparr>)"
  by (simp add: check_ffmpeg_query_ok plain_console_def demo_os_def demo_start_def child_exits_def log_def)

text \<open>
  C4. The claim says a non-zero exit is reported as a failure and the captured text is
  relayed. Before the text, line 155 prints a line that starts with the ballot cross
  U+2717, inside the \<open>try\<close>. When standard output cannot write that line, \<open>print\<close>
  raises, the \<open>except Exception\<close> of line 160 catches the exception, and the handler's own
  line 161 starts with the same character and raises again, outside any handler. The
  exception leaves \<open>convert_video\<close>: it returns nothing, and neither \<open>Error details:\<close>
  nor the captured text is printed.
\<close>

theorem convert_video_failure_print_raises:
  assumes "os_path_exists env (fs s) p"
      and "check_ffmpeg env (log (Exists p) s) = (Inr (Some exe), s1)"
      and "exe \<noteq> []"
      and "subprocess_spawn env (fs s1) (ffmpeg_command (path_flavour_of env) exe p) = (Inr (rc, raw), fs2)"
      and "locale_decode env raw = Inr err"
      and "rc \<noteq> 0"
      and "stdout_write env (''Converting: '' @ os_path_basename env p) = None"
      and "stdout_write env (''Output will be: '' @
             os_path_basename env (output_path (path_flavour_of env) p)) = None"
      and "stdout_write env (newline @ ''Processing... (this may take a while)'') = None"
      and "stdout_write env (newline @ ballot_x @ '' Conversion failed!'') = Some e1"
      and "stdout_write env (newline @ ballot_x @ '' Error during conversion: '' @ exn_str e1) = Some e2"
  shows "convert_video env p s =
           (Inl e2,
            \<lparr>fs = fs2,
             trace = trace s1 @
               [Print (''Converting: '' @ os_path_basename env p),
                Print (''Output will be: '' @
                       os_path_basename env (output_path (path_flavour_of env) p)),
                Print (newline @ ''Processing... (this may take a while)''),
                Spawn (ffmpeg_command (path_flavour_of env) exe p)]\<rparr>)"
  using convert_video_with_tool [OF assms(1-3)] assms(4-11)
  by (simp add: run_conversion_def Let_def prog_defs log_def)

theorem convert_video_failure_print_raises_witness:
  "convert_video plain_console ''/videos/clip.mp4'' demo_start =
     (Inl encode_error,
      \<lparr>fs = [(''/videos/clip.mp4'', False)],
       trace = [Exists ''/videos/clip.mp4'', Spawn version_query,
                Print ''Converting: clip.mp4'',
                Print ''Output will be: clip_16-9.mp4'',
                Print (newline @ ''Processing... (this may take a while)''),
                Spawn (ffmpeg_command Posix ''ffmpeg'' ''/videos/clip.mp4'')]\<rparr>)"
proof -
  let ?s1 = "\<lparr>fs = [(''/videos/clip.mp4'', False)],
              trace = [Exists ''/videos/clip.mp4'', Spawn version_query]\<rparr>"
  have flavour: "path_flavour_of plain_console = Posix"
    by (simp add: plain_console_def demo_os_def)
  have child: "subprocess_spawn plain_console (fs ?s1)
      (ffmpeg_command (path_flavour_of plain_console) ''ffmpeg'' ''/videos/clip.mp4'')
      = (Inr (1, ''X''), [(''/videos/clip.mp4'', False)])"
    by (simp add: plain_console_def demo_os_def child_exits_def ffmpeg_command_def version_query_def)
  have there: "os_path_exists plain_console (fs demo_start) ''/videos/clip.mp4''"
    by (simp add: plain_console_def demo_os_def demo_start_def)
  have decode: "locale_decode plain_console ''X'' = Inr ''X''"
    by (simp add: plain_console_def demo_os_def)
  have base: "os_path_basename plain_console ''/videos/clip.mp4'' = ''clip.mp4''"
    "os_path_basename plain_console ''/videos/clip_16-9.mp4'' = ''clip_16-9.mp4''"
    by (simp_all add: plain_console_def demo_os_def posix_basename_def Let_def)
  have written:
    "stdout_write plain_console (''Converting: '' @ os_path_basename plain_console ''/videos/clip.mp4'') = None"
    "stdout_write plain_console (''Output will be: '' @
       os_path_basename plain_console (output_path (path_flavour_of plain_console) ''/videos/clip.mp4'')) = None"
    "stdout_write plain_console (newline @ ''Processing... (this may take a while)'') = None"
    unfolding base flavour output_path_clip
    by (simp_all add: plain_console_def demo_os_def ascii_console_def is_ascii_def newline_def)
  have refused:
    "stdout_write plain_console (newline @ ballot_x @ '' Conversion failed!'') = Some encode_error"
    "stdout_write plain_console
       (newline @ ballot_x @ '' Error during conversion: '' @ exn_str encode_error) = Some encode_error"
    by (simp_all add: plain_console_def demo_os_def ascii_console_def is_ascii_def newline_def
        ballot_x_def)
  from convert_video_failure_print_raises
    [OF there plain_console_tool _ child decode _ written refused]
  show ?thesis by (simp add: flavour base output_path_clip)
qed

subsection \<open>\<open>main\<close>\<close>

text \<open>
  C7. The claim says every external call is guarded. The version query of line 88 is
  guarded for \<open>CalledProcessError\<close> and \<open>FileNotFoundError\<close> only: when its launch
  raises any other exception (a \<open>PermissionError\<close> for an \<open>ffmpeg\<close> on the search path
  that may not be executed), \<open>main\<close> ends in an uncaught exception. On a standard output
  that accepts every line it is that exception, which leaves \<open>check_ffmpeg\<close>,
  \<open>convert_video\<close> and \<open>main\<close>, and the last effect of the run is the version query:
  no failure is reported, and the prompt before exit is never shown. The download (line
  71) and the conversion (line 160) catch every exception of their calls:
  \<open>download_ffmpeg_returns\<close>, \<open>run_conversion_returns\<close>.
\<close>

theorem version_query_fault_crashes_main:
  assumes "os_path_exists env (fs s) (strip single_quote (strip double_quote arg))"
      and "subprocess_spawn env (fs s) version_query = (Inl e, fs1)"
      and "exn_class_of e \<noteq> CalledProcessError"
      and "exn_class_of e \<noteq> FileNotFoundError"
  shows "(\<exists>e'. fst (main env (script # arg # rest) s) = Inl e') \<and>
         (stdout_ok env \<longrightarrow>
            fst (main env (script # arg # rest) s) = Inl e \<and>
            last (trace (snd (main env (script # arg # rest) s))) = Spawn version_query)"
proof -
  let ?p = "strip single_quote (strip double_quote arg)"
  have crash: "check_ffmpeg env s' = (Inl e, \<lparr>fs = fs1, trace = trace s' @ [Spawn version_query]\<rparr>)"
    if "fs s' = fs s" for s' :: "'a state"
    using assms that by (simp add: check_ffmpeg_query_uncaught)
  have conv: "convert_video env ?p s' =
                (Inl e, \<lparr>fs = fs1, trace = trace s' @ [Exists ?p, Spawn version_query]\<rparr>)"
    if "fs s' = fs s" for s' :: "'a state"
    using assms(1) that crash [of "log (Exists ?p) s'"]
    by (simp add: convert_video_def andthen_def path_exists_def log_def)
  have "\<exists>e'. fst (main env (script # arg # rest) s) = Inl e'"
    by (auto simp: main_def Let_def next_do_def andthen_def print_def log_def conv
        split: option.splits)
  moreover have "fst (main env (script # arg # rest) s) = Inl e \<and>
      last (trace (snd (main env (script # arg # rest) s))) = Spawn version_query"
    if "stdout_ok env"
    using that by (simp add: main_def Let_def next_do_def andthen_def log_def conv)
  ultimately show ?thesis by blast
qed

theorem version_query_fault_crashes_main_witness:
  "fst (main (demo_os ''Linux'' (query_raises denied) []) [''4.3.py'', ''/videos/clip.mp4'']
          demo_start) = Inl denied"
proof -
  let ?env = "demo_os ''Linux'' (query_raises denied) []"
  have arg: "strip single_quote (strip double_quote ''/videos/clip.mp4'') = ''/videos/clip.mp4''"
    by (simp add: strip_def single_quote_def double_quote_def)
  have there: "os_path_exists ?env (fs demo_start) (strip single_quote (strip double_quote ''/videos/clip.mp4''))"
    unfolding arg by (simp add: demo_os_def demo_start_def)
  have fault: "subprocess_spawn ?env (fs demo_start) version_query = (Inl denied, fs demo_start)"
    by (simp add: demo_os_def query_raises_def)
  from version_query_fault_crashes_main [OF there fault, of "''4.3.py''" "[]"]
    demo_stdout_ok [of "''Linux''" "query_raises denied" "[]"]
  show ?thesis by (simp add: denied_def)
qed

lemma dropWhile_keeps: "xs = [] \<or> \<not> P (hd xs) \<Longrightarrow> dropWhile P xs = xs"
  by (cases xs) auto

lemma strip_keeps:
  assumes "p = [] \<or> hd p \<notin> set chars \<and> last p \<notin> set chars"
  shows "strip chars p = p"
proof (cases "p = []")
  case True
  then show ?thesis by (simp add: strip_def)
next
  case False
  with assms have "dropWhile (\<lambda>c. c \<in> set chars) p = p"
    and "dropWhile (\<lambda>c. c \<in> set chars) (rev p) = rev p"
    by (simp_all add: dropWhile_keeps hd_rev)
  then show ?thesis by (simp add: strip_def)
qed

lemma strip_wrapped:
  assumes "set q \<subseteq> set chars"
      and "p = [] \<or> hd p \<notin> set chars \<and> last p \<notin> set chars"
  shows "strip chars (q @ p @ q) = p"
proof (cases "p = []")
  case True
  from assms(1) have "dropWhile (\<lambda>c. c \<in> set chars) (q @ q) = []"
    by (subst dropWhile_eq_Nil_conv) auto
  then have "strip chars (q @ q) = []"
    unfolding strip_def by (simp only: rev.simps dropWhile.simps)
  with True show ?thesis by simp
next
  case False
  with assms have front: "dropWhile (\<lambda>c. c \<in> set chars) (q @ p @ q) = p @ q"
    by (subst dropWhile_append2) (auto simp: dropWhile_keeps)
  from False assms have "dropWhile (\<lambda>c. c \<in> set chars) (rev q @ rev p) = rev p"
    by (subst dropWhile_append2) (auto simp: dropWhile_keeps hd_rev)
  with front show ?thesis by (simp add: strip_def)
qed

lemma strip_quotes_unquoted:
  assumes "unquoted p"
  shows "strip single_quote (strip double_quote p) = p"
proof -
  from assms have "strip double_quote p = p"
    by (intro strip_keeps) (auto simp: unquoted_def double_quote_def)
  moreover from assms have "strip single_quote p = p"
    by (intro strip_keeps) (auto simp: unquoted_def single_quote_def)
  ultimately show ?thesis by simp
qed

lemma strip_quotes_wrapped:
  assumes "unquoted p" and "q = double_quote \<or> q = single_quote"
  shows "strip single_quote (strip double_quote (q @ p @ q)) = p"
proof -
  from assms(2) show ?thesis
  proof
    assume q: "q = double_quote"
    with assms(1) have "strip double_quote (q @ p @ q) = p"
      by (intro strip_wrapped) (auto simp: unquoted_def double_quote_def)
    moreover from assms(1) have "strip single_quote p = p"
      by (intro strip_keeps) (auto simp: unquoted_def single_quote_def)
    ultimately show ?thesis by simp
  next
    assume q: "q = single_quote"
    then have "strip double_quote (q @ p @ q) = q @ p @ q"
      by (intro strip_keeps) (simp add: single_quote_def double_quote_def)
    moreover from q assms(1) have "strip single_quote (q @ p @ q) = p"
      by (intro strip_wrapped) (auto simp: unquoted_def single_quote_def)
    ultimately show ?thesis by simp
  qed
qed

text \<open>
  C9. For a path \<open>p\<close> that neither begins nor ends with a quote character, the argument
  \<open>p\<close> in a pair of double quotes or in a pair of single quotes is stripped to \<open>p\<close>, as
  the bare argument is, and \<open>main\<close> is the same program in both cases: the one that
  prints the banner and \<open>Received file:\<close> with \<open>p\<close>, runs \<open>convert_video\<close> on \<open>p\<close>,
  prompts, and exits with 0 when \<open>convert_video\<close> returned \<open>True\<close> and with 1
  otherwise.
\<close>

theorem main_quoted_argument:
  assumes "unquoted p" and "q = double_quote \<or> q = single_quote"
  shows "strip single_quote (strip double_quote (q @ p @ q)) = p \<and>
         strip single_quote (strip double_quote p) = p \<and>
         main env (script # (q @ p @ q) # rest) = main env (script # p # rest) \<and>
         main env (script # p # rest) =
           next_do (print env (banner (CHR ''='')))
          (next_do (print env ''4:3 to 16:9 Video Converter'')
          (next_do (print env (banner (CHR ''='')))
          (next_do (print env [])
          (next_do (print env (''Received file: '' @ p))
          (next_do (print env [])
          (andthen (convert_video env p)
            (\<lambda>success.
               next_do (print env [])
              (andthen (input env ''Press Enter to exit...'')
                (\<lambda>_. ret (if success then 0 else 1))))))))))"
  using strip_quotes_wrapped [OF assms] strip_quotes_unquoted [OF assms(1)]
  by (simp add: main_def Let_def)

theorem main_quoted_argument_witness:
  "fst (main (demo_os ''Linux'' (child_exits 0 []) [])
          [''4.3.py'', double_quote @ ''/videos/clip.mp4'' @ double_quote] demo_start) = Inr 0 \<and>
   filter is_spawn
     (trace (snd (main (demo_os ''Linux'' (child_exits 0 []) [])
                    [''4.3.py'', double_quote @ ''/videos/clip.mp4'' @ double_quote] demo_start))) =
     [Spawn [''ffmpeg'', ''-version''],
      Spawn [''ffmpeg'', ''-i'', ''/videos/clip.mp4'', ''-vf'', ''scale=1920:1080,setsar=1'',
             ''-c:a'', ''copy'', ''-y'', ''/videos/clip_16-9.mp4'']]"
proof -
  let ?env = "demo_os ''Linux'' (child_exits 0 []) []"
  let ?p = "''/videos/clip.mp4''"
  have ok: "stdout_ok ?env" by (rule demo_stdout_ok)
  have flavour: "path_flavour_of ?env = Posix" by (simp add: demo_os_def)
  have conv: "convert_video ?env ?p s =
      (Inr True,
       \<lparr>fs = [(''/videos/clip.mp4'', False)],
        trace = trace s @ [Exists ?p, Spawn version_query,
          Print (''Converting: '' @ os_path_basename ?env ?p),
          Print (''Output will be: '' @ os_path_basename ?env (output_path Posix ?p)),
          Print (newline @ ''Processing... (this may take a while)''),
          Spawn (ffmpeg_command Posix ''ffmpeg'' ?p),
          Print (newline @ check_mark @ '' Success! Converted video saved as:''),
          Print (''  '' @ output_path Posix ?p)]\<rparr>)"
    if s: "fs s = [(''/videos/clip.mp4'', False)]" for s :: "demo_fs state"
  proof -
    let ?s1 = "\<lparr>fs = [(''/videos/clip.mp4'', False)],
                trace = trace s @ [Exists ?p, Spawn version_query]\<rparr>"
    have there: "os_path_exists ?env (fs s) ?p" by (simp add: demo_os_def s)
    have tool: "check_ffmpeg ?env (log (Exists ?p) s) = (Inr (Some ''ffmpeg''), ?s1)"
      by (simp add: check_ffmpeg_query_ok demo_os_def child_exits_def log_def s)
    have child: "subprocess_spawn ?env (fs ?s1) (ffmpeg_command (path_flavour_of ?env) ''ffmpeg'' ?p)
        = (Inr (0, []), [(''/videos/clip.mp4'', False)])"
      unfolding flavour by (simp add: demo_child)
    have decoded: "locale_decode ?env [] = Inr []" by (simp add: demo_os_def)
    have "convert_video ?env ?p s = run_conversion ?env ''ffmpeg'' ?p ?s1"
      using there tool by (rule convert_video_with_tool) simp
    with run_conversion_child_ran [OF child decoded ok] show ?thesis
      by (simp add: flavour)
  qed
  have prompt: "input ?env line s = (Inr [], log (Input line) s)" for line and s :: "demo_fs state"
    by (simp add: input_def demo_os_def)
  have unq: "unquoted ?p" by (simp add: unquoted_def)
  from main_quoted_argument [OF unq, of double_quote ?env "''4.3.py''" "[]"]
  have "main ?env [''4.3.py'', double_quote @ ?p @ double_quote] demo_start =
        next_do (print ?env (banner (CHR ''='')))
          (next_do (print ?env ''4:3 to 16:9 Video Converter'')
          (next_do (print ?env (banner (CHR ''='')))
          (next_do (print ?env [])
          (next_do (print ?env (''Received file: '' @ ?p))
          (next_do (print ?env [])
          (andthen (convert_video ?env ?p)
            (\<lambda>success.
               next_do (print ?env [])
              (andthen (input ?env ''Press Enter to exit...'')
                (\<lambda>_. ret (if success then 0 else 1)))))))))) demo_start"
    by simp
  then show ?thesis
    using ok
    by (simp add: next_do_def andthen_def conv log_def demo_start_def prompt ret_def
        ffmpeg_command_def output_path_clip version_query_def)
qed

end
